theory Spec2Isabelle
  imports Complex_Main
begin

section \<open>Python values, errors and helpers\<close>

text \<open>
  Exceptions of the Python source are values: a function that may raise returns
  \<open>py_error + 'a\<close>, with \<open>Inl\<close> for the exception.  Tensor entries and learning rates
  are floating-point numbers in the source; they are idealised as \<open>real\<close> here, so
  rounding, infinities and NaN are outside the model.
\<close>

datatype py_error =
    ValueError string
  | ZeroDivisionError
  | IndexError
  | AttributeError string
  | UnboundLocalError string
  | OverflowError

definition then_do :: "py_error + 'a \<Rightarrow> ('a \<Rightarrow> py_error + 'b) \<Rightarrow> py_error + 'b" where
  "then_do m f = (case m of Inl e \<Rightarrow> Inl e | Inr a \<Rightarrow> f a)"

definition py_index :: "'a list \<Rightarrow> nat \<Rightarrow> py_error + 'a" where
  \<comment> \<open>\<open>xs[i]\<close> for a loop index \<open>i \<ge> 0\<close>.\<close>
  "py_index xs i = (if i < length xs then Inr (xs ! i) else Inl IndexError)"

definition py_floordiv :: "int \<Rightarrow> int \<Rightarrow> py_error + int" where
  \<comment> \<open>\<open>a // b\<close> on integers.\<close>
  "py_floordiv a b = (if b = 0 then Inl ZeroDivisionError else Inr (a div b))"


definition overflow_bound :: real where
  \<comment> \<open>The least magnitude that rounds to no finite double: halfway between the largest
      double and \<open>2 ^ 1024\<close>.\<close>
  "overflow_bound = (2 - 1 / 2 ^ 53) * 2 ^ 1023"

definition py_pow :: "real \<Rightarrow> int \<Rightarrow> py_error + real" where
  \<comment> \<open>\<open>b ** k\<close> for an integer exponent, as \<open>schedule\<close> uses it.  A power too large
      for a double raises \<open>OverflowError\<close>: for a float base in \<open>**\<close> itself, for an
      integer base when the exact integer power is multiplied with the float
      \<open>initial_lr\<close>.\<close>
  "py_pow b k =
     (if 0 \<le> k then
        (if overflow_bound \<le> \<bar>b ^ nat k\<bar> then Inl OverflowError else Inr (b ^ nat k))
      else if b = 0 then Inl ZeroDivisionError
      else if overflow_bound \<le> \<bar>1 / b ^ nat (- k)\<bar> then Inl OverflowError
      else Inr (1 / b ^ nat (- k)))"

fun str_nat :: "nat \<Rightarrow> string" where
  "str_nat n =
     (if n < 10 then [''0123456789'' ! n]
      else str_nat (n div 10) @ [''0123456789'' ! (n mod 10)])"

declare str_nat.simps [simp del]

definition path_join :: "string \<Rightarrow> string \<Rightarrow> string" where
  \<comment> \<open>\<open>os.path.join(a, b)\<close> on a POSIX system.\<close>
  "path_join a b =
     (if b \<noteq> [] \<and> hd b = CHR ''/'' then b
      else if a = [] \<or> last a = CHR ''/'' then a @ b
      else a @ ''/'' @ b)"

section \<open>Tensors\<close>

type_synonym tensor2 = "real list list"
type_synonym tensor4 = "real list list list list"

definition has_shape2 :: "tensor2 \<Rightarrow> nat \<Rightarrow> nat \<Rightarrow> bool" where
  "has_shape2 t b n = (length t = b \<and> list_all (\<lambda>r. length r = n) t)"

definition has_shape4 :: "tensor4 \<Rightarrow> nat \<Rightarrow> nat \<Rightarrow> nat \<Rightarrow> nat \<Rightarrow> bool" where
  "has_shape4 t b h w c =
     (length t = b \<and>
      list_all (\<lambda>s. length s = h \<and>
        list_all (\<lambda>r. length r = w \<and> list_all (\<lambda>p. length p = c) r) s) t)"

section \<open>The learning-rate schedule (AE.py)\<close>

definition schedule :: "real \<Rightarrow> real \<Rightarrow> int \<Rightarrow> int \<Rightarrow> py_error + real" where
  \<comment> \<open>The closure \<open>schedule(epoch)\<close> of \<open>step_decay_schedule\<close>, with the captured
      \<open>initial_lr\<close>, \<open>decay_factor\<close> and \<open>step_size\<close> as leading arguments.\<close>
  "schedule initial_lr decay_factor step_size epoch =
     then_do (py_floordiv epoch step_size) (\<lambda>q.
     then_do (py_pow decay_factor q) (\<lambda>p.
     Inr (initial_lr * p)))"

section \<open>Layers and models\<close>

datatype initializer = RandomNormal real real

record conv_args =
  filters :: int
  kernel_size :: int
  strides :: "int option"
  padding :: string
  layer_name :: string
  kernel_initializer :: "initializer option"

datatype layer =
    Input "int list" string
  | Conv2D conv_args
  | Conv2DTranspose conv_args
  | UpSampling2D
  | LeakyReLU "real option"
  | BatchNormalization "real option"
  | Dropout real
  | Flatten
  | Dense int "string option" "initializer option"
  | Reshape "int list"
  | Activation string
  | Submodel "layer list"

text \<open>
  A Keras model built by threading one tensor \<open>x\<close> through layer calls
  (\<open>x = layer(x)\<close>) is the list of those layers in call order, its input layer first.
\<close>

type_synonym model = "layer list"

datatype optimizer = Adam real "real option" | RMSprop real

fun for_range :: "(nat \<Rightarrow> model \<Rightarrow> py_error + model) \<Rightarrow> nat list \<Rightarrow> model \<Rightarrow> py_error + model" where
  \<comment> \<open>\<open>for i in range(n): x = body(i, x)\<close>, stopping at the first exception.\<close>
  "for_range body [] x = Inr x"
| "for_range body (i # is) x = then_do (body i x) (for_range body is)"

section \<open>The autoencoder (AE.py)\<close>

record autoencoder =
  name :: string
  input_dim :: "int list"
  encoder_conv_filters :: "int list"
  encoder_conv_kernel_size :: "int list"
  encoder_conv_strides :: "int list"
  decoder_conv_t_filters :: "int list"
  decoder_conv_t_kernel_size :: "int list"
  decoder_conv_t_strides :: "int list"
  z_dim :: int
  use_batch_norm :: bool
  use_dropout :: bool
  n_layers_encoder :: nat
  n_layers_decoder :: nat
  encoder :: model
  decoder :: model
  full_model :: model
  learning_rate :: "real option"
  compiled :: "(optimizer \<times> (tensor4 \<Rightarrow> tensor4 \<Rightarrow> real list)) option"

text \<open>
  A layer constructor or a layer call may raise inside the framework.  \<open>refuses x l\<close> is
  the exception the framework raises when the layer \<open>l\<close> is constructed and called on the
  tensor the chain \<open>x\<close> produces, if it raises one; it is a parameter of the model.
\<close>

definition add_layer ::
    "(model \<Rightarrow> layer \<Rightarrow> py_error option) \<Rightarrow> model \<Rightarrow> layer \<Rightarrow> py_error + model" where
  \<comment> \<open>\<open>x = l(x)\<close>\<close>
  "add_layer refuses x l = (case refuses x l of Some e \<Rightarrow> Inl e | None \<Rightarrow> Inr (x @ [l]))"

fun add_layers ::
    "(model \<Rightarrow> layer \<Rightarrow> py_error option) \<Rightarrow> model \<Rightarrow> layer list \<Rightarrow> py_error + model" where
  "add_layers refuses x [] = Inr x"
| "add_layers refuses x (l # ls) =
     then_do (add_layer refuses x l) (\<lambda>x'. add_layers refuses x' ls)"

definition keras_refuses :: "model \<Rightarrow> layer \<Rightarrow> py_error option" where
  \<comment> \<open>One refusal of the framework, for examples: a convolution whose number of filters
      is not positive raises \<open>ValueError\<close>.  The framework refuses more than this.\<close>
  "keras_refuses x l =
     (case l of
        Conv2D a \<Rightarrow>
          (if filters a \<le> 0
           then Some (ValueError ''Invalid value for argument filters'') else None)
      | Conv2DTranspose a \<Rightarrow>
          (if filters a \<le> 0
           then Some (ValueError ''Invalid value for argument filters'') else None)
      | _ \<Rightarrow> None)"

definition encoder_step :: "(model \<Rightarrow> layer \<Rightarrow> py_error option) \<Rightarrow> autoencoder \<Rightarrow> nat \<Rightarrow> model \<Rightarrow>
    py_error + model" where
  \<comment> \<open>Body of the encoder loop of \<open>_build\<close>.\<close>
  "encoder_step refuses self i x =
     then_do (py_index (encoder_conv_filters self) i) (\<lambda>f.
     then_do (py_index (encoder_conv_kernel_size self) i) (\<lambda>k.
     then_do (py_index (encoder_conv_strides self) i) (\<lambda>s.
     add_layers refuses x
       ([Conv2D \<lparr>filters = f, kernel_size = k, strides = Some s, padding = ''same'',
                 layer_name = ''encoder_conv_'' @ str_nat i, kernel_initializer = None\<rparr>,
         LeakyReLU None]
        @ (if use_batch_norm self then [BatchNormalization None] else [])
        @ (if use_dropout self then [Dropout 0.25] else [])))))"

definition decoder_step :: "(model \<Rightarrow> layer \<Rightarrow> py_error option) \<Rightarrow> autoencoder \<Rightarrow> nat \<Rightarrow> model \<Rightarrow>
    py_error + model" where
  \<comment> \<open>Body of the decoder loop of \<open>_build\<close>.\<close>
  "decoder_step refuses self i x =
     then_do (py_index (decoder_conv_t_filters self) i) (\<lambda>f.
     then_do (py_index (decoder_conv_t_kernel_size self) i) (\<lambda>k.
     then_do (py_index (decoder_conv_t_strides self) i) (\<lambda>s.
     add_layers refuses x
       ([Conv2DTranspose \<lparr>filters = f, kernel_size = k, strides = Some s,
                 padding = ''same'', layer_name = ''decoder_conv_t_'' @ str_nat i,
                 kernel_initializer = None\<rparr>]
        @ (if int i < int (n_layers_decoder self) - 1
           then [LeakyReLU None]
                @ (if use_batch_norm self then [BatchNormalization None] else [])
                @ (if use_dropout self then [Dropout 0.25] else [])
           else [Activation ''sigmoid''])))))"

definition build :: "(model \<Rightarrow> layer \<Rightarrow> py_error option) \<Rightarrow> (model \<Rightarrow> int list) \<Rightarrow> autoencoder \<Rightarrow>
    py_error + autoencoder" where
  \<comment> \<open>\<open>Autoencoder._build\<close>.  \<open>int_shape\<close> is the framework's shape inference
      \<open>K.int_shape(x)[1:]\<close> for the tensor produced by a chain of layers.\<close>
  "build refuses int_shape self =
     then_do (add_layer refuses [] (Input (input_dim self) ''encoder_input'')) (\<lambda>encoder_input.
     then_do (for_range (encoder_step refuses self) [0 ..< n_layers_encoder self]
                encoder_input) (\<lambda>x.
     let shape_before_flattening = int_shape x in
     then_do (add_layers refuses x
                [Flatten, Dense (z_dim self) (Some ''encoder_output'') None]) (\<lambda>enc.
     then_do (add_layers refuses []
                [Input [z_dim self] ''decoder_input'',
                 Dense (prod_list shape_before_flattening) None None,
                 Reshape shape_before_flattening]) (\<lambda>x.
     then_do (for_range (decoder_step refuses self) [0 ..< n_layers_decoder self] x) (\<lambda>dec.
     then_do (add_layer refuses enc (Submodel dec)) (\<lambda>full.
     Inr (self\<lparr>encoder := enc, decoder := dec, full_model := full\<rparr>)))))))"

definition attributes :: "int list \<Rightarrow> int list \<Rightarrow> int list \<Rightarrow> int list \<Rightarrow> int list \<Rightarrow> int list \<Rightarrow>
    int list \<Rightarrow> int \<Rightarrow> bool \<Rightarrow> bool \<Rightarrow> autoencoder" where
  \<comment> \<open>The attributes \<open>Autoencoder.__init__\<close> assigns before it calls \<open>_build\<close>; those
      assigned later are empty or \<open>None\<close>.\<close>
  "attributes input_dim' encoder_conv_filters' encoder_conv_kernel_size'
        encoder_conv_strides' decoder_conv_t_filters' decoder_conv_t_kernel_size'
        decoder_conv_t_strides' z_dim' use_batch_norm' use_dropout' =
     \<lparr>name = ''autoencoder'', input_dim = input_dim',
      encoder_conv_filters = encoder_conv_filters',
      encoder_conv_kernel_size = encoder_conv_kernel_size',
      encoder_conv_strides = encoder_conv_strides',
      decoder_conv_t_filters = decoder_conv_t_filters',
      decoder_conv_t_kernel_size = decoder_conv_t_kernel_size',
      decoder_conv_t_strides = decoder_conv_t_strides',
      z_dim = z_dim', use_batch_norm = use_batch_norm', use_dropout = use_dropout',
      n_layers_encoder = length encoder_conv_filters',
      n_layers_decoder = length decoder_conv_t_filters',
      encoder = [], decoder = [], full_model = [],
      learning_rate = None, compiled = None\<rparr>"

definition init :: "(model \<Rightarrow> layer \<Rightarrow> py_error option) \<Rightarrow> (model \<Rightarrow> int list) \<Rightarrow> int list \<Rightarrow> int list \<Rightarrow> int list \<Rightarrow> int list \<Rightarrow>
    int list \<Rightarrow> int list \<Rightarrow> int list \<Rightarrow> int \<Rightarrow> bool \<Rightarrow> bool \<Rightarrow> py_error + autoencoder" where
  \<comment> \<open>\<open>Autoencoder.__init__\<close>.\<close>
  "init refuses int_shape input_dim' encoder_conv_filters' encoder_conv_kernel_size'
        encoder_conv_strides' decoder_conv_t_filters' decoder_conv_t_kernel_size'
        decoder_conv_t_strides' z_dim' use_batch_norm' use_dropout' =
     (if \<not> (length encoder_conv_filters' = length encoder_conv_kernel_size' \<and>
             length encoder_conv_kernel_size' = length encoder_conv_strides')
      then Inl (ValueError
        ''Encoder filter sizes, kernel sizes, and strides must have the same length.'')
      else if \<not> (length decoder_conv_t_filters' = length decoder_conv_t_kernel_size' \<and>
             length decoder_conv_t_kernel_size' = length decoder_conv_t_strides')
      then Inl (ValueError
        ''Decoder filter sizes, kernel sizes, and strides must have the same length.'')
      else build refuses int_shape
        (attributes input_dim' encoder_conv_filters' encoder_conv_kernel_size'
           encoder_conv_strides' decoder_conv_t_filters' decoder_conv_t_kernel_size'
           decoder_conv_t_strides' z_dim' use_batch_norm' use_dropout'))"

subsection \<open>Reconstruction loss and compilation\<close>

text \<open>
  Elementwise operations are written for operands of equal shape; the framework's
  broadcasting of unequal shapes is not modelled, and every statement about these
  operations assumes equal shapes.
\<close>

definition tf_subtract :: "tensor4 \<Rightarrow> tensor4 \<Rightarrow> tensor4" where
  "tf_subtract a b = map2 (map2 (map2 (map2 (\<lambda>x y. x - y)))) a b"

definition tf_square :: "tensor4 \<Rightarrow> tensor4" where
  "tf_square t = map (map (map (map (\<lambda>x. x * x)))) t"

definition tf_reduce_mean_123 :: "tensor4 \<Rightarrow> real list" where
  \<comment> \<open>\<open>tf.reduce_mean(t, axis=[1, 2, 3])\<close>: one mean per sample, over all its entries.\<close>
  "tf_reduce_mean_123 t =
     map (\<lambda>s. sum_list (concat (concat s)) / real (length (concat (concat s)))) t"

definition r_loss :: "tensor4 \<Rightarrow> tensor4 \<Rightarrow> real list" where
  "r_loss y_true y_pred = tf_reduce_mean_123 (tf_square (tf_subtract y_true y_pred))"

definition compile :: "autoencoder \<Rightarrow> real \<Rightarrow> autoencoder" where
  \<comment> \<open>\<open>Autoencoder.compile\<close>: the optimizer and the loss handed to \<open>model.compile\<close>
      are kept in \<open>compiled\<close>.\<close>
  "compile self learning_rate' =
     self\<lparr>learning_rate := Some learning_rate',
          compiled := Some (Adam learning_rate' None, r_loss)\<rparr>"

subsection \<open>Training\<close>

datatype callback =
    ModelCheckpoint string bool int
  | CustomCallback string int int autoencoder
  | LearningRateScheduler "int \<Rightarrow> py_error + real"

definition step_decay_schedule :: "real \<Rightarrow> real \<Rightarrow> int \<Rightarrow> callback" where
  "step_decay_schedule initial_lr decay_factor step_size =
     LearningRateScheduler (schedule initial_lr decay_factor step_size)"

record fit_call =
  fit_loss :: "tensor4 \<Rightarrow> tensor4 \<Rightarrow> real list"
  fit_x :: tensor4
  fit_y :: tensor4
  fit_batch_size :: int
  fit_shuffle :: bool
  fit_epochs :: int
  fit_initial_epoch :: int
  fit_callbacks :: "callback list"

definition default_print_every_n_batches :: int where
  "default_print_every_n_batches = 100"

definition default_initial_epoch :: int where
  "default_initial_epoch = 0"

definition default_lr_decay :: real where
  "default_lr_decay = 1"

definition train :: "autoencoder \<Rightarrow> tensor4 \<Rightarrow> int \<Rightarrow> int \<Rightarrow> string \<Rightarrow> int \<Rightarrow> int \<Rightarrow> real \<Rightarrow>
    py_error + fit_call" where
  \<comment> \<open>\<open>Autoencoder.train\<close>: the result is the call of \<open>self.model.fit\<close> it makes, with
      the loss the model was compiled with.  Before \<open>compile\<close> the attribute
      \<open>learning_rate\<close> does not exist.\<close>
  "train self x_train batch_size epochs run_folder print_every_n_batches initial_epoch lr_decay =
     (case learning_rate self of
        None \<Rightarrow> Inl (AttributeError ''learning_rate'')
      | Some lr \<Rightarrow>
         (case compiled self of
            None \<Rightarrow> Inl (ValueError ''You must call compile() before using the model.'')
          | Some (opt, loss) \<Rightarrow>
             let custom_callback = CustomCallback run_folder print_every_n_batches initial_epoch self;
                 lr_sched = step_decay_schedule lr lr_decay 1;
                 checkpoint_path = path_join run_folder ''weights/weights.h5'';
                 checkpoint2 = ModelCheckpoint checkpoint_path True 1;
                 callbacks_list = [checkpoint2, custom_callback, lr_sched]
             in Inr \<lparr>fit_loss = loss, fit_x = x_train, fit_y = x_train,
                     fit_batch_size = batch_size, fit_shuffle = True, fit_epochs = epochs,
                     fit_initial_epoch = initial_epoch, fit_callbacks = callbacks_list\<rparr>))"

section \<open>The Wasserstein GAN with gradient penalty (WGANGP.py)\<close>

subsection \<open>The random interpolation layer\<close>

record random_weighted_average =
  layer_batch_size :: nat

definition scale_samples :: "real list \<Rightarrow> tensor4 \<Rightarrow> tensor4" where
  \<comment> \<open>\<open>alpha * t\<close> for \<open>alpha\<close> of shape \<open>(B, 1, 1, 1)\<close>, given as its \<open>B\<close> entries, and
      \<open>t\<close> of shape \<open>(B, H, W, C)\<close>: the coefficient of a sample multiplies all its entries.\<close>
  "scale_samples alpha t = map2 (\<lambda>a s. map (map (map (\<lambda>x. a * x))) s) alpha t"

definition tf_add :: "tensor4 \<Rightarrow> tensor4 \<Rightarrow> tensor4" where
  "tf_add a b = map2 (map2 (map2 (map2 (\<lambda>x y. x + y)))) a b"

definition call :: "random_weighted_average \<Rightarrow> (nat \<Rightarrow> real list) \<Rightarrow> tensor4 \<times> tensor4 \<Rightarrow> tensor4" where
  \<comment> \<open>\<open>RandomWeightedAverage.call\<close>.  \<open>random_uniform n\<close> is the draw
      \<open>tf.random.uniform((n, 1, 1, 1))\<close>, given as its \<open>n\<close> entries; \<open>inputs\<close> is the pair
      \<open>[inputs[0], inputs[1]]\<close>.\<close>
  "call self random_uniform inputs =
     (let alpha = random_uniform (layer_batch_size self)
      in tf_add (scale_samples alpha (fst inputs))
                (scale_samples (map (\<lambda>a. 1 - a) alpha) (snd inputs)))"

subsection \<open>Loss functions\<close>

definition K_sum_axes_from_1 :: "tensor4 \<Rightarrow> real list" where
  \<comment> \<open>\<open>K.sum(t, axis=np.arange(1, len(t.shape)))\<close> for a tensor of rank 4.\<close>
  "K_sum_axes_from_1 t = map (\<lambda>s. sum_list (concat (concat s))) t"

definition K_mean :: "real list \<Rightarrow> real" where
  "K_mean v = sum_list v / real (length v)"

definition K_mean2 :: "tensor2 \<Rightarrow> real" where
  \<comment> \<open>\<open>K.mean\<close> without an axis: the mean of all entries.\<close>
  "K_mean2 t = sum_list (concat t) / real (length (concat t))"

definition gradient_penalty_loss ::
    "(tensor2 \<Rightarrow> tensor4 \<Rightarrow> tensor4) \<Rightarrow> tensor2 \<Rightarrow> tensor2 \<Rightarrow> tensor4 \<Rightarrow> real" where
  \<comment> \<open>\<open>WGANGP.gradient_penalty_loss\<close>.  \<open>K_gradients y x\<close> is the framework's
      \<open>K.gradients(y, x)[0]\<close>: one gradient per sample, of the shape of the sample.\<close>
  "gradient_penalty_loss K_gradients y_true y_pred interpolated_samples =
     (let gradients = K_gradients y_pred interpolated_samples;
          gradients_sqr = tf_square gradients;
          gradients_sqr_sum = K_sum_axes_from_1 gradients_sqr;
          gradient_l2_norm = map sqrt gradients_sqr_sum;
          gradient_penalty = map (\<lambda>n. (1 - n) * (1 - n)) gradient_l2_norm
      in K_mean gradient_penalty)"

definition wasserstein :: "tensor2 \<Rightarrow> tensor2 \<Rightarrow> real" where
  "wasserstein y_true y_pred = - K_mean2 (map2 (map2 (\<lambda>x y. x * y)) y_true y_pred)"

subsection \<open>The object and its construction\<close>

datatype loss_fn = Wasserstein | GradientPenalty

record compiled_model =
  inputs :: "string list"
  outputs :: "string list"
  loss :: "loss_fn list"
  loss_weights :: "real list"
  optimizer_of :: optimizer
  critic_trainable :: bool
  generator_trainable :: bool

datatype event =
    TrainCritic
  | TrainGenerator
  | Print nat int
  | SampleImages string
  | SaveWeights string
  | SaveModel string

text \<open>
  \<open>'m\<close> is the state the framework keeps behind the object (weights, optimizer slots,
  random generator, position in the data), \<open>'l\<close> the value \<open>train_on_batch\<close> returns.
  \<open>calls\<close> records, in order, the optimization steps and outputs the object has caused.
\<close>

record ('m, 'l) wgangp =
  gan_name :: string
  gan_input_dim :: "int list"
  critic_conv_filters :: "int list"
  critic_conv_kernel_size :: "int list"
  critic_conv_strides :: "int list"
  critic_batch_norm_momentum :: "real option"
  critic_activation :: string
  critic_dropout_rate :: "real option"
  critic_learning_rate :: real
  generator_initial_dense_layer_size :: "int list"
  generator_upsample :: "int list"
  generator_conv_filters :: "int list"
  generator_conv_kernel_size :: "int list"
  generator_conv_strides :: "int list"
  generator_batch_norm_momentum :: "real option"
  generator_activation :: string
  generator_dropout_rate :: "real option"
  generator_learning_rate :: real
  optimiser :: string
  gan_z_dim :: int
  n_layers_critic :: nat
  n_layers_generator :: nat
  weight_init :: initializer
  grad_weight :: real
  gan_batch_size :: nat
  d_losses :: "'l list"
  g_losses :: "'l list"
  gan_epoch :: nat
  critic :: model
  generator :: model
  interpolation :: "random_weighted_average option"
  critic_model :: "compiled_model option"
  gan_model :: "compiled_model option"
  net :: 'm
  calls :: "event list"

definition truthy :: "real option \<Rightarrow> bool" where
  \<comment> \<open>Python's truth value of a number or \<open>None\<close>.\<close>
  "truthy v = (case v of None \<Rightarrow> False | Some r \<Rightarrow> r \<noteq> 0)"

definition batch_norm_if :: "real option \<Rightarrow> model" where
  \<comment> \<open>\<open>if momentum: x = BatchNormalization(momentum=momentum)(x)\<close>\<close>
  "batch_norm_if momentum = (if truthy momentum then [BatchNormalization momentum] else [])"

definition dropout_if :: "real option \<Rightarrow> model" where
  \<comment> \<open>\<open>if rate: x = Dropout(rate=rate)(x)\<close>\<close>
  "dropout_if rate = (case rate of None \<Rightarrow> [] | Some r \<Rightarrow> if r \<noteq> 0 then [Dropout r] else [])"

definition get_activation :: "string \<Rightarrow> layer" where
  "get_activation activation =
     (if activation = ''leaky_relu'' then LeakyReLU (Some 0.2) else Activation activation)"

definition critic_step :: "('m, 'l) wgangp \<Rightarrow> nat \<Rightarrow> model \<Rightarrow> py_error + model" where
  \<comment> \<open>Body of the loop of \<open>_build_critic\<close>.\<close>
  "critic_step self i x =
     then_do (py_index (critic_conv_filters self) i) (\<lambda>f.
     then_do (py_index (critic_conv_kernel_size self) i) (\<lambda>k.
     then_do (py_index (critic_conv_strides self) i) (\<lambda>s.
     Inr (x @ [Conv2D \<lparr>filters = f, kernel_size = k, strides = Some s, padding = ''same'',
                      layer_name = ''critic_conv_'' @ str_nat i,
                      kernel_initializer = Some (weight_init self)\<rparr>]
            @ (if truthy (critic_batch_norm_momentum self) \<and> i > 0
               then [BatchNormalization (critic_batch_norm_momentum self)] else [])
            @ [get_activation (critic_activation self)]
            @ dropout_if (critic_dropout_rate self)))))"

definition build_critic :: "('m, 'l) wgangp \<Rightarrow> py_error + ('m, 'l) wgangp" where
  "build_critic self =
     then_do (for_range (critic_step self) [0 ..< n_layers_critic self]
                [Input (gan_input_dim self) ''critic_input'']) (\<lambda>x.
     Inr (self\<lparr>critic := x @ [Flatten, Dense 1 None (Some (weight_init self))]\<rparr>))"

definition generator_conv :: "('m, 'l) wgangp \<Rightarrow> nat \<Rightarrow> py_error + model" where
  \<comment> \<open>The \<open>if self.generator_upsample[i] == 2: ... else: ...\<close> of \<open>_build_generator\<close>.\<close>
  "generator_conv self i =
     then_do (py_index (generator_upsample self) i) (\<lambda>u.
     if u = 2 then
       then_do (py_index (generator_conv_filters self) i) (\<lambda>f.
       then_do (py_index (generator_conv_kernel_size self) i) (\<lambda>k.
       Inr [UpSampling2D,
            Conv2D \<lparr>filters = f, kernel_size = k, strides = None, padding = ''same'',
                    layer_name = ''generator_conv_'' @ str_nat i,
                    kernel_initializer = Some (weight_init self)\<rparr>]))
     else
       then_do (py_index (generator_conv_filters self) i) (\<lambda>f.
       then_do (py_index (generator_conv_kernel_size self) i) (\<lambda>k.
       then_do (py_index (generator_conv_strides self) i) (\<lambda>s.
       Inr [Conv2DTranspose \<lparr>filters = f, kernel_size = k, strides = Some s,
                    padding = ''same'', layer_name = ''generator_conv_'' @ str_nat i,
                    kernel_initializer = Some (weight_init self)\<rparr>]))))"

definition generator_tail :: "('m, 'l) wgangp \<Rightarrow> nat \<Rightarrow> model" where
  \<comment> \<open>The \<open>if i < self.n_layers_generator - 1: ... else: ...\<close> of \<open>_build_generator\<close>.\<close>
  "generator_tail self i =
     (if int i < int (n_layers_generator self) - 1
      then batch_norm_if (generator_batch_norm_momentum self)
           @ [get_activation (generator_activation self)]
      else [Activation ''tanh''])"

definition generator_step :: "('m, 'l) wgangp \<Rightarrow> nat \<Rightarrow> model \<Rightarrow> py_error + model" where
  \<comment> \<open>Body of the loop of \<open>_build_generator\<close>.\<close>
  "generator_step self i x =
     then_do (generator_conv self i) (\<lambda>ls. Inr (x @ ls @ generator_tail self i))"

definition build_generator :: "('m, 'l) wgangp \<Rightarrow> py_error + ('m, 'l) wgangp" where
  "build_generator self =
     then_do (for_range (generator_step self) [0 ..< n_layers_generator self]
                ([Input [gan_z_dim self] ''generator_input'',
                  Dense (prod_list (generator_initial_dense_layer_size self)) None
                    (Some (weight_init self))]
                 @ batch_norm_if (generator_batch_norm_momentum self)
                 @ [get_activation (generator_activation self),
                    Reshape (generator_initial_dense_layer_size self)]
                 @ dropout_if (generator_dropout_rate self))) (\<lambda>x.
     Inr (self\<lparr>generator := x\<rparr>))"

definition get_opti :: "('m, 'l) wgangp \<Rightarrow> real \<Rightarrow> optimizer" where
  "get_opti self lr =
     (if optimiser self = ''adam'' then Adam lr (Some 0.5)
      else if optimiser self = ''rmsprop'' then RMSprop lr
      else Adam lr None)"

definition build_adversarial :: "('m, 'l) wgangp \<Rightarrow> ('m, 'l) wgangp" where
  \<comment> \<open>\<open>_build_adversarial\<close>: the two compiled models, each with the \<open>trainable\<close> flags
      in force when it is compiled.\<close>
  "build_adversarial self =
     self\<lparr>interpolation := Some \<lparr>layer_batch_size = gan_batch_size self\<rparr>,
          critic_model := Some
            \<lparr>inputs = [''real_img'', ''z_disc''],
             outputs = [''valid'', ''fake'', ''validity_interpolated''],
             loss = [Wasserstein, Wasserstein, GradientPenalty],
             loss_weights = [1, 1, grad_weight self],
             optimizer_of = get_opti self (critic_learning_rate self),
             critic_trainable = True, generator_trainable = False\<rparr>,
          gan_model := Some
            \<lparr>inputs = [''model_input''], outputs = [''model_output''],
             loss = [Wasserstein], loss_weights = [1],
             optimizer_of = get_opti self (generator_learning_rate self),
             critic_trainable = False, generator_trainable = True\<rparr>\<rparr>"

definition build_gan :: "('m, 'l) wgangp \<Rightarrow> py_error + ('m, 'l) wgangp" where
  \<comment> \<open>The three \<open>_build_...\<close> calls that end \<open>WGANGP.__init__\<close>.\<close>
  "build_gan self =
     then_do (build_critic self) (\<lambda>self.
     then_do (build_generator self) (\<lambda>self.
     Inr (build_adversarial self)))"

definition gan_attributes :: "'m \<Rightarrow> int list \<Rightarrow> int list \<Rightarrow> int list \<Rightarrow> int list \<Rightarrow> real option \<Rightarrow>
    string \<Rightarrow> real option \<Rightarrow> real \<Rightarrow> int list \<Rightarrow> int list \<Rightarrow> int list \<Rightarrow> int list \<Rightarrow> int list \<Rightarrow>
    real option \<Rightarrow> string \<Rightarrow> real option \<Rightarrow> real \<Rightarrow> string \<Rightarrow> real \<Rightarrow> int \<Rightarrow> nat \<Rightarrow>
    ('m, 'l) wgangp" where
  \<comment> \<open>The attributes \<open>WGANGP.__init__\<close> assigns before the three \<open>_build_...\<close> calls;
      \<open>net0\<close> is the framework's state before the call.\<close>
  "gan_attributes net0 input_dim' critic_conv_filters' critic_conv_kernel_size' critic_conv_strides'
       critic_batch_norm_momentum' critic_activation' critic_dropout_rate'
       critic_learning_rate' generator_initial_dense_layer_size' generator_upsample'
       generator_conv_filters' generator_conv_kernel_size' generator_conv_strides'
       generator_batch_norm_momentum' generator_activation' generator_dropout_rate'
       generator_learning_rate' optimiser' grad_weight' z_dim' batch_size' =
     \<lparr>gan_name = ''gan'', gan_input_dim = input_dim',
        critic_conv_filters = critic_conv_filters',
        critic_conv_kernel_size = critic_conv_kernel_size',
        critic_conv_strides = critic_conv_strides',
        critic_batch_norm_momentum = critic_batch_norm_momentum',
        critic_activation = critic_activation',
        critic_dropout_rate = critic_dropout_rate',
        critic_learning_rate = critic_learning_rate',
        generator_initial_dense_layer_size = generator_initial_dense_layer_size',
        generator_upsample = generator_upsample',
        generator_conv_filters = generator_conv_filters',
        generator_conv_kernel_size = generator_conv_kernel_size',
        generator_conv_strides = generator_conv_strides',
        generator_batch_norm_momentum = generator_batch_norm_momentum',
        generator_activation = generator_activation',
        generator_dropout_rate = generator_dropout_rate',
        generator_learning_rate = generator_learning_rate',
        optimiser = optimiser', gan_z_dim = z_dim',
        n_layers_critic = length critic_conv_filters',
        n_layers_generator = length generator_conv_filters',
        weight_init = RandomNormal 0 0.02, grad_weight = grad_weight',
        gan_batch_size = batch_size', d_losses = [], g_losses = [], gan_epoch = 0,
        critic = [], generator = [], interpolation = None,
        critic_model = None, gan_model = None, net = net0, calls = []\<rparr>"

definition gan_init :: "'m \<Rightarrow> int list \<Rightarrow> int list \<Rightarrow> int list \<Rightarrow> int list \<Rightarrow> real option \<Rightarrow> string \<Rightarrow>
    real option \<Rightarrow> real \<Rightarrow> int list \<Rightarrow> int list \<Rightarrow> int list \<Rightarrow> int list \<Rightarrow> int list \<Rightarrow>
    real option \<Rightarrow> string \<Rightarrow> real option \<Rightarrow> real \<Rightarrow> string \<Rightarrow> real \<Rightarrow> int \<Rightarrow> nat \<Rightarrow>
    py_error + ('m, 'l) wgangp" where
  \<comment> \<open>\<open>WGANGP.__init__\<close>.\<close>
  "gan_init net0 input_dim' critic_conv_filters' critic_conv_kernel_size' critic_conv_strides'
       critic_batch_norm_momentum' critic_activation' critic_dropout_rate'
       critic_learning_rate' generator_initial_dense_layer_size' generator_upsample'
       generator_conv_filters' generator_conv_kernel_size' generator_conv_strides'
       generator_batch_norm_momentum' generator_activation' generator_dropout_rate'
       generator_learning_rate' optimiser' grad_weight' z_dim' batch_size' =
     build_gan (gan_attributes net0 input_dim' critic_conv_filters' critic_conv_kernel_size' critic_conv_strides'
       critic_batch_norm_momentum' critic_activation' critic_dropout_rate'
       critic_learning_rate' generator_initial_dense_layer_size' generator_upsample'
       generator_conv_filters' generator_conv_kernel_size' generator_conv_strides'
       generator_batch_norm_momentum' generator_activation' generator_dropout_rate'
       generator_learning_rate' optimiser' grad_weight' z_dim' batch_size')"

subsection \<open>Training\<close>

record ('m, 'l) keras =
  next_batch :: "'m \<Rightarrow> tensor4 \<times> 'm"
  random_rows :: "'m \<Rightarrow> nat \<Rightarrow> tensor4 \<times> 'm"
  random_normal :: "'m \<Rightarrow> nat \<Rightarrow> int \<Rightarrow> tensor2 \<times> 'm"
  critic_model_train_on_batch :: "'m \<Rightarrow> tensor4 \<times> tensor2 \<Rightarrow> tensor2 list \<Rightarrow> 'l \<times> 'm"
  model_train_on_batch :: "'m \<Rightarrow> tensor2 \<Rightarrow> tensor2 \<Rightarrow> 'l \<times> 'm"

text \<open>
  The framework and the data behind \<open>x_train\<close> are parameters: \<open>next_batch\<close> is
  \<open>next(x_train)[0]\<close>, \<open>random_rows m n\<close> is
  \<open>x_train[np.random.randint(0, x_train.shape[0], n)]\<close>, \<open>random_normal m n z\<close> is
  \<open>np.random.normal(0, 1, (n, z))\<close>, each with the state it leaves.  An exhausted
  iterator and an empty data set are outside the model.
\<close>

definition np_full :: "real \<Rightarrow> nat \<Rightarrow> tensor2" where
  \<comment> \<open>\<open>np.ones((n, 1))\<close>, \<open>-np.ones((n, 1))\<close> and \<open>np.zeros((n, 1))\<close> are
      \<open>np_full 1 n\<close>, \<open>np_full (-1) n\<close> and \<open>np_full 0 n\<close>.\<close>
  "np_full v n = replicate n [v]"

definition train_critic ::
    "('m, 'l) keras \<Rightarrow> ('m, 'l) wgangp \<Rightarrow> nat \<Rightarrow> bool \<Rightarrow> 'l \<times> ('m, 'l) wgangp" where
  "train_critic fw self batch_size using_generator =
     (let valid = np_full 1 batch_size;
          fake = np_full (- 1) batch_size;
          dummy = np_full 0 batch_size;
          (true_imgs, net1) =
            (if using_generator then
               (let (imgs, n1) = next_batch fw (net self)
                in if length imgs \<noteq> batch_size then next_batch fw n1 else (imgs, n1))
             else random_rows fw (net self) batch_size);
          (noise, net2) = random_normal fw net1 batch_size (gan_z_dim self);
          (d_loss, net3) = critic_model_train_on_batch fw net2 (true_imgs, noise) [valid, fake, dummy]
      in (d_loss, self\<lparr>net := net3, calls := calls self @ [TrainCritic]\<rparr>))"



definition default_n_critic :: int where
  "default_n_critic = 5"




definition optimization_steps :: "event list \<Rightarrow> event list" where
  "optimization_steps es = filter (\<lambda>e. e = TrainCritic \<or> e = TrainGenerator) es"



subsection \<open>The loss of the critic model\<close>

definition eval_loss ::
    "(tensor2 \<Rightarrow> tensor4 \<Rightarrow> tensor4) \<Rightarrow> tensor4 \<Rightarrow> loss_fn \<Rightarrow> tensor2 \<Rightarrow> tensor2 \<Rightarrow> real" where
  \<comment> \<open>\<open>Wasserstein\<close> names \<open>self.wasserstein\<close>, \<open>GradientPenalty\<close> names
      \<open>partial(self.gradient_penalty_loss, interpolated_samples=interpolated_img)\<close>.\<close>
  "eval_loss K_gradients interpolated_img l y_true y_pred =
     (case l of
        Wasserstein \<Rightarrow> wasserstein y_true y_pred
      | GradientPenalty \<Rightarrow> gradient_penalty_loss K_gradients y_true y_pred interpolated_img)"

definition total_loss :: "(tensor2 \<Rightarrow> tensor4 \<Rightarrow> tensor4) \<Rightarrow> tensor4 \<Rightarrow> compiled_model \<Rightarrow>
    tensor2 list \<Rightarrow> tensor2 list \<Rightarrow> real" where
  \<comment> \<open>The framework's loss of a model compiled with a list of losses and
      \<open>loss_weights\<close>: the weighted sum of the losses of its outputs.\<close>
  "total_loss K_gradients interpolated_img m y_trues y_preds =
     sum_list (map (\<lambda>(w, l, y_true, y_pred).
                      w * eval_loss K_gradients interpolated_img l y_true y_pred)
                 (zip (loss_weights m) (zip (loss m) (zip y_trues y_preds))))"

definition activation_fn :: "string \<Rightarrow> (real \<Rightarrow> real) option" where
  \<comment> \<open>The function the framework applies to every entry for \<open>Activation(name)\<close>, for
      the two names the source writes literally; other names are not modelled.\<close>
  "activation_fn a =
     (if a = ''sigmoid'' then Some (\<lambda>x. 1 / (1 + exp (- x)))
      else if a = ''tanh'' then Some tanh
      else None)"

definition l2_norm :: "real list list list \<Rightarrow> real" where
  \<comment> \<open>The L2 norm of one sample's gradient, as the specification words it.\<close>
  "l2_norm g = sqrt (\<Sum>j<length g. \<Sum>k<length (g ! j). \<Sum>l<length (g ! j ! k). (g ! j ! k ! l)\<^sup>2)"

section \<open>Closed forms of the built models\<close>

fun is_conv_t :: "layer \<Rightarrow> bool" where
  "is_conv_t (Conv2DTranspose _) = True"
| "is_conv_t _ = False"

definition encoder_block :: "autoencoder \<Rightarrow> nat \<Rightarrow> model" where
  \<comment> \<open>The layers one pass of the encoder loop adds when its three reads are in range.\<close>
  "encoder_block self i =
     [Conv2D \<lparr>filters = encoder_conv_filters self ! i,
              kernel_size = encoder_conv_kernel_size self ! i,
              strides = Some (encoder_conv_strides self ! i), padding = ''same'',
              layer_name = ''encoder_conv_'' @ str_nat i, kernel_initializer = None\<rparr>,
      LeakyReLU None]
     @ (if use_batch_norm self then [BatchNormalization None] else [])
     @ (if use_dropout self then [Dropout 0.25] else [])"

definition decoder_conv_t :: "autoencoder \<Rightarrow> nat \<Rightarrow> layer" where
  \<comment> \<open>The transposed convolution numbered \<open>i\<close>, when its three reads are in range.\<close>
  "decoder_conv_t self i =
     Conv2DTranspose \<lparr>filters = decoder_conv_t_filters self ! i,
              kernel_size = decoder_conv_t_kernel_size self ! i,
              strides = Some (decoder_conv_t_strides self ! i), padding = ''same'',
              layer_name = ''decoder_conv_t_'' @ str_nat i, kernel_initializer = None\<rparr>"

definition decoder_after :: "autoencoder \<Rightarrow> nat \<Rightarrow> model" where
  \<comment> \<open>The layers that follow the transposed convolution numbered \<open>i\<close>.\<close>
  "decoder_after self i =
     (if i + 1 < n_layers_decoder self
      then [LeakyReLU None]
           @ (if use_batch_norm self then [BatchNormalization None] else [])
           @ (if use_dropout self then [Dropout 0.25] else [])
      else [Activation ''sigmoid''])"

definition encoder_convs :: "autoencoder \<Rightarrow> model" where
  "encoder_convs self =
     Input (input_dim self) ''encoder_input'' #
       concat (map (encoder_block self) [0 ..< n_layers_encoder self])"

definition decoder_layers :: "(model \<Rightarrow> int list) \<Rightarrow> autoencoder \<Rightarrow> model" where
  "decoder_layers int_shape self =
     [Input [z_dim self] ''decoder_input'',
      Dense (prod_list (int_shape (encoder_convs self))) None None,
      Reshape (int_shape (encoder_convs self))]
     @ concat (map (\<lambda>i. decoder_conv_t self i # decoder_after self i)
                 [0 ..< n_layers_decoder self])"

fun is_generator_conv :: "layer \<Rightarrow> bool" where
  "is_generator_conv (Conv2D _) = True"
| "is_generator_conv (Conv2DTranspose _) = True"
| "is_generator_conv _ = False"

definition generator_conv_layers :: "('m, 'l) wgangp \<Rightarrow> nat \<Rightarrow> model" where
  \<comment> \<open>The layers \<open>generator_conv\<close> returns when its reads are in range.\<close>
  "generator_conv_layers self i =
     (if generator_upsample self ! i = 2
      then [UpSampling2D,
            Conv2D \<lparr>filters = generator_conv_filters self ! i,
                    kernel_size = generator_conv_kernel_size self ! i,
                    strides = None, padding = ''same'',
                    layer_name = ''generator_conv_'' @ str_nat i,
                    kernel_initializer = Some (weight_init self)\<rparr>]
      else [Conv2DTranspose \<lparr>filters = generator_conv_filters self ! i,
                    kernel_size = generator_conv_kernel_size self ! i,
                    strides = Some (generator_conv_strides self ! i), padding = ''same'',
                    layer_name = ''generator_conv_'' @ str_nat i,
                    kernel_initializer = Some (weight_init self)\<rparr>])"

definition generator_stem :: "('m, 'l) wgangp \<Rightarrow> model" where
  \<comment> \<open>The layers of the generator before its loop.\<close>
  "generator_stem self =
     [Input [gan_z_dim self] ''generator_input'',
      Dense (prod_list (generator_initial_dense_layer_size self)) None
        (Some (weight_init self))]
     @ batch_norm_if (generator_batch_norm_momentum self)
     @ [get_activation (generator_activation self),
        Reshape (generator_initial_dense_layer_size self)]
     @ dropout_if (generator_dropout_rate self)"

section \<open>Properties\<close>

subsection \<open>Errors and loops\<close>

lemma then_do_Inr [simp]: "then_do (Inr a) f = f a"
  by (simp add: then_do_def)

lemma then_do_Inl [simp]: "then_do (Inl e) f = Inl e"
  by (simp add: then_do_def)

lemma then_do_eq_Inr: "then_do m f = Inr y \<longleftrightarrow> (\<exists>a. m = Inr a \<and> f a = Inr y)"
  by (cases m) simp_all

lemma py_index_in_range: "i < length xs \<Longrightarrow> py_index xs i = Inr (xs ! i)"
  by (simp add: py_index_def)

lemma for_range_appends:
  assumes "\<And>i x. i \<in> set js \<Longrightarrow> body i x = Inr (x @ g i)"
  shows "for_range body js x = Inr (x @ concat (map g js))"
  using assms by (induction js arbitrary: x) simp_all

lemma py_index_eq_Inr: "py_index xs i = Inr v \<longleftrightarrow> i < length xs \<and> v = xs ! i"
  by (auto simp: py_index_def)

lemma for_range_result:
  assumes "for_range body js x = Inr y"
    and "\<And>i x y. i \<in> set js \<Longrightarrow> body i x = Inr y \<Longrightarrow> y = x @ g i"
  shows "y = x @ concat (map g js)"
  using assms
proof (induction js arbitrary: x)
  case Nil
  then show ?case by simp
next
  case (Cons i js)
  from Cons.prems(1) obtain x' where step: "body i x = Inr x'"
    and rest: "for_range body js x' = Inr y"
    by (auto simp: then_do_eq_Inr)
  from Cons.prems(2) [OF _ step] have "x' = x @ g i" by simp
  moreover from Cons.IH [OF rest] Cons.prems(2) have "y = x' @ concat (map g js)" by simp
  ultimately show ?case by simp
qed

lemma for_range_each:
  assumes "for_range body js x = Inr y" and "i \<in> set js"
  shows "\<exists>x' y'. body i x' = Inr y'"
  using assms
proof (induction js arbitrary: x)
  case Nil
  then show ?case by simp
next
  case (Cons j js)
  from Cons.prems(1) obtain x' where step: "body j x = Inr x'"
    and rest: "for_range body js x' = Inr y"
    by (auto simp: then_do_eq_Inr)
  show ?case
  proof (cases "i = j")
    case True
    with step show ?thesis by blast
  next
    case False
    with Cons.prems(2) have "i \<in> set js" by simp
    from Cons.IH [OF rest this] show ?thesis .
  qed
qed

lemma then_do_eq_Inl:
  "then_do m f = Inl e \<longleftrightarrow> m = Inl e \<or> (\<exists>a. m = Inr a \<and> f a = Inl e)"
  by (cases m) simp_all

lemma for_range_Inl:
  assumes "for_range body js x = Inl e"
  shows "\<exists>i\<in>set js. \<exists>x'. body i x' = Inl e"
  using assms
proof (induction js arbitrary: x)
  case Nil
  then show ?case by simp
next
  case (Cons j js)
  from Cons.prems consider "body j x = Inl e"
    | x' where "body j x = Inr x'" "for_range body js x' = Inl e"
    by (auto simp: then_do_eq_Inl)
  then show ?case
  proof cases
    case 1
    then show ?thesis by auto
  next
    case 2
    from Cons.IH [OF 2(2)] show ?thesis by auto
  qed
qed

lemma add_layer_eq_Inr: "add_layer refuses x l = Inr y \<longleftrightarrow> refuses x l = None \<and> y = x @ [l]"
  by (auto simp: add_layer_def split: option.splits)

lemma add_layer_eq_Inl: "add_layer refuses x l = Inl e \<longleftrightarrow> refuses x l = Some e"
  by (auto simp: add_layer_def split: option.splits)

lemma add_layers_Inr:
  assumes "add_layers refuses x ls = Inr y"
  shows "y = x @ ls"
  using assms
proof (induction ls arbitrary: x)
  case Nil
  then show ?case by simp
next
  case (Cons l ls)
  from Cons.prems have "add_layers refuses (x @ [l]) ls = Inr y"
    by (auto simp: then_do_eq_Inr add_layer_eq_Inr)
  from Cons.IH [OF this] show ?case by simp
qed

lemma add_layers_Inl:
  assumes "add_layers refuses x ls = Inl e"
  shows "\<exists>m. \<exists>l\<in>set ls. refuses m l = Some e"
  using assms
proof (induction ls arbitrary: x)
  case Nil
  then show ?case by simp
next
  case (Cons l ls)
  from Cons.prems consider "refuses x l = Some e"
    | x' where "add_layers refuses x' ls = Inl e"
    by (auto simp: then_do_eq_Inl add_layer_eq_Inl)
  then show ?case
  proof cases
    case 1
    then show ?thesis by auto
  next
    case 2
    from Cons.IH [OF 2] show ?thesis by auto
  qed
qed

lemma add_layers_accepted:
  assumes "\<forall>m. \<forall>l\<in>set ls. refuses m l = None"
  shows "add_layers refuses x ls = Inr (x @ ls)"
  using assms by (induction ls arbitrary: x) (simp_all add: add_layer_def)

subsection \<open>The learning-rate schedule\<close>

lemma overflow_bound_gt_one: "1 < overflow_bound"
proof -
  have "(1 :: real) \<le> 2 ^ 1023"
    by (rule one_le_power) simp
  moreover have "(1 :: real) < 2 - 1 / 2 ^ 53"
  proof -
    have "(1 :: real) / 2 ^ 53 < 1"
      by (simp add: power_gt1)
    then show ?thesis by simp
  qed
  ultimately have "1 * 1 < (2 - 1 / 2 ^ 53) * (2 :: real) ^ 1023"
    by (intro mult_less_le_imp_less) simp_all
  then show ?thesis
    by (simp add: overflow_bound_def)
qed

lemma overflow_bound_le: "overflow_bound \<le> 2 ^ 1024"
proof -
  have "(2 - 1 / 2 ^ 53) * (2 :: real) ^ 1023 \<le> 2 * 2 ^ 1023"
    by (intro mult_right_mono) simp_all
  also have "\<dots> = 2 ^ Suc 1023"
    by simp
  also have "Suc 1023 = 1024"
    by simp
  finally show ?thesis
    by (simp add: overflow_bound_def)
qed

text \<open>
  C10.  The callback \<open>step_decay_schedule\<close> returns holds a function that, wherever
  \<open>epoch // step_size\<close> is defined and the power stays within the range of a double,
  returns \<open>initial_lr * decay_factor ** (epoch // step_size)\<close>; for an epoch \<open>e \<ge> 0\<close> and
  a positive step size the exponent is the natural number \<open>e div step_size\<close>.  A power
  beyond the range of a double raises \<open>OverflowError\<close>.  With the default
  \<open>lr_decay = 1\<close>, the scheduler that \<open>Autoencoder.train\<close> hands to \<open>fit\<close> is
  \<open>step_decay_schedule\<close> of the compiled learning rate with step size 1, and its function
  returns that learning rate at every epoch.
\<close>

theorem schedule_formula:
  "\<exists>f. step_decay_schedule initial_lr decay_factor step_size = LearningRateScheduler f
     \<and> (step_size \<noteq> 0 \<and> (decay_factor \<noteq> 0 \<or> 0 \<le> e div step_size)
        \<and> \<bar>decay_factor powi (e div step_size)\<bar> < overflow_bound \<longrightarrow>
          f e = Inr (initial_lr * decay_factor powi (e div step_size)))
     \<and> (0 \<le> e \<and> 0 < step_size
        \<and> \<bar>decay_factor ^ nat (e div step_size)\<bar> < overflow_bound \<longrightarrow>
          f e = Inr (initial_lr * decay_factor ^ nat (e div step_size)))
     \<and> (step_size \<noteq> 0 \<and> (decay_factor \<noteq> 0 \<or> 0 \<le> e div step_size)
        \<and> overflow_bound \<le> \<bar>decay_factor powi (e div step_size)\<bar> \<longrightarrow>
          f e = Inl OverflowError)
     \<and> (\<exists>c g cb1 cb2.
          train (compile self lr) x_train batch_size epochs run_folder pe ie default_lr_decay
            = Inr c
          \<and> fit_callbacks c = [cb1, cb2, step_decay_schedule lr default_lr_decay 1]
          \<and> step_decay_schedule lr default_lr_decay 1 = LearningRateScheduler g
          \<and> (\<forall>e'. g e' = Inr lr))"
proof -
  let ?q = "e div step_size"
  have powi: "decay_factor powi ?q
      = (if 0 \<le> ?q then decay_factor ^ nat ?q else 1 / decay_factor ^ nat (- ?q))"
    by (simp add: power_int_def divide_inverse power_inverse)
  have sched: "schedule initial_lr decay_factor step_size e =
      (if overflow_bound \<le> \<bar>decay_factor powi ?q\<bar> then Inl OverflowError
       else Inr (initial_lr * decay_factor powi ?q))"
    if ok: "step_size \<noteq> 0 \<and> (decay_factor \<noteq> 0 \<or> 0 \<le> ?q)"
  proof (cases "0 \<le> ?q")
    case True
    with ok show ?thesis
      by (simp add: schedule_def py_floordiv_def py_pow_def powi)
  next
    case False
    with ok have "decay_factor \<noteq> 0" by simp
    with ok False show ?thesis
      by (simp add: schedule_def py_floordiv_def py_pow_def powi)
  qed
  have general: "schedule initial_lr decay_factor step_size e
      = Inr (initial_lr * decay_factor powi ?q)"
    if "step_size \<noteq> 0 \<and> (decay_factor \<noteq> 0 \<or> 0 \<le> ?q)
        \<and> \<bar>decay_factor powi ?q\<bar> < overflow_bound"
    using that sched by simp
  have nonneg: "schedule initial_lr decay_factor step_size e
      = Inr (initial_lr * decay_factor ^ nat ?q)"
    if pos: "0 \<le> e \<and> 0 < step_size \<and> \<bar>decay_factor ^ nat ?q\<bar> < overflow_bound"
  proof -
    from pos have "0 \<le> ?q"
      by (simp add: pos_imp_zdiv_nonneg_iff)
    with pos show ?thesis
      by (simp add: schedule_def py_floordiv_def py_pow_def)
  qed
  have raises: "schedule initial_lr decay_factor step_size e = Inl OverflowError"
    if "step_size \<noteq> 0 \<and> (decay_factor \<noteq> 0 \<or> 0 \<le> ?q)
        \<and> overflow_bound \<le> \<bar>decay_factor powi ?q\<bar>"
    using that sched by simp
  have "\<forall>e'. schedule lr default_lr_decay 1 e' = Inr lr"
    using overflow_bound_gt_one
    by (simp add: schedule_def py_floordiv_def py_pow_def default_lr_decay_def)
  then have default: "\<exists>c g cb1 cb2.
          train (compile self lr) x_train batch_size epochs run_folder pe ie default_lr_decay
            = Inr c
          \<and> fit_callbacks c = [cb1, cb2, step_decay_schedule lr default_lr_decay 1]
          \<and> step_decay_schedule lr default_lr_decay 1 = LearningRateScheduler g
          \<and> (\<forall>e'. g e' = Inr lr)"
    by (simp add: train_def compile_def step_decay_schedule_def)
  from general nonneg raises default show ?thesis
    unfolding step_decay_schedule_def by blast
qed

theorem schedule_formula_witness:
  "\<exists>f. step_decay_schedule (1 / 10) (1 / 2) 2 = LearningRateScheduler f
     \<and> f 5 = Inr (1 / 40)"
proof -
  have small: "\<bar>(1 / 2 :: real) ^ nat (5 div 2)\<bar> < overflow_bound"
    using overflow_bound_gt_one by (simp add: power2_eq_square)
  then have hyp: "(0 :: int) \<le> 5 \<and> (0 :: int) < 2
      \<and> \<bar>(1 / 2 :: real) ^ nat (5 div 2)\<bar> < overflow_bound"
    by simp
  from schedule_formula [of "1 / 10" "1 / 2" 2 5]
  obtain f where f: "step_decay_schedule (1 / 10) (1 / 2) 2 = LearningRateScheduler f"
    and formula: "0 \<le> (5 :: int) \<and> (0 :: int) < 2
        \<and> \<bar>(1 / 2 :: real) ^ nat (5 div 2)\<bar> < overflow_bound \<longrightarrow>
          f 5 = Inr (1 / 10 * (1 / 2) ^ nat (5 div 2))"
    by blast
  from formula hyp have "f 5 = Inr (1 / 10 * (1 / 2) ^ nat (5 div 2))"
    by blast
  then have "f 5 = Inr (1 / 40)"
    by (simp add: power2_eq_square)
  with f show ?thesis by blast
qed

text \<open>
  With \<open>initial_lr = 0.1\<close>, \<open>decay_factor = 2.0\<close> and \<open>step_size = 1\<close>, the schedule
  raises at epoch 2000 instead of returning \<open>0.1 * 2 ^ 2000\<close>.
\<close>

theorem schedule_overflow_counterexample:
  "schedule (1 / 10) 2 1 2000 = Inl OverflowError
   \<and> schedule (1 / 10) 2 1 2000 \<noteq> Inr (1 / 10 * 2 ^ nat (2000 div 1))"
proof -
  have "(2 :: real) ^ 1024 \<le> 2 ^ 2000"
    by (rule power_increasing) simp_all
  with overflow_bound_le have "overflow_bound \<le> \<bar>(2 :: real) ^ 2000\<bar>"
    by simp
  then have "schedule (1 / 10) 2 1 2000 = Inl OverflowError"
    by (simp add: schedule_def py_floordiv_def py_pow_def)
  then show ?thesis by simp
qed

subsection \<open>Construction of the autoencoder\<close>

lemma encoder_step_in_range:
  assumes "i < length (encoder_conv_filters self)"
    and "i < length (encoder_conv_kernel_size self)"
    and "i < length (encoder_conv_strides self)"
  shows "encoder_step refuses self i x = add_layers refuses x (encoder_block self i)"
  using assms by (simp add: encoder_step_def encoder_block_def py_index_in_range)

lemma decoder_step_in_range:
  assumes "i < length (decoder_conv_t_filters self)"
    and "i < length (decoder_conv_t_kernel_size self)"
    and "i < length (decoder_conv_t_strides self)"
  shows "decoder_step refuses self i x
     = add_layers refuses x (decoder_conv_t self i # decoder_after self i)"
proof -
  have "(int i < int (n_layers_decoder self) - 1) = (i + 1 < n_layers_decoder self)"
    by linarith
  with assms show ?thesis
    by (simp add: decoder_step_def decoder_conv_t_def decoder_after_def py_index_in_range)
qed

lemma build_Inr:
  assumes "n_layers_encoder self \<le> length (encoder_conv_filters self)"
    and "n_layers_encoder self \<le> length (encoder_conv_kernel_size self)"
    and "n_layers_encoder self \<le> length (encoder_conv_strides self)"
    and "n_layers_decoder self \<le> length (decoder_conv_t_filters self)"
    and "n_layers_decoder self \<le> length (decoder_conv_t_kernel_size self)"
    and "n_layers_decoder self \<le> length (decoder_conv_t_strides self)"
    and built: "build refuses int_shape self = Inr a"
  shows "a = self
        \<lparr>encoder := encoder_convs self
                    @ [Flatten, Dense (z_dim self) (Some ''encoder_output'') None],
         decoder := decoder_layers int_shape self,
         full_model := encoder_convs self
                    @ [Flatten, Dense (z_dim self) (Some ''encoder_output'') None,
                       Submodel (decoder_layers int_shape self)]\<rparr>"
proof -
  from built obtain x0 x enc d0 dec full where
    x0: "add_layer refuses [] (Input (input_dim self) ''encoder_input'') = Inr x0"
    and x: "for_range (encoder_step refuses self) [0 ..< n_layers_encoder self] x0 = Inr x"
    and enc: "add_layers refuses x
        [Flatten, Dense (z_dim self) (Some ''encoder_output'') None] = Inr enc"
    and d0: "add_layers refuses []
        [Input [z_dim self] ''decoder_input'', Dense (prod_list (int_shape x)) None None,
         Reshape (int_shape x)] = Inr d0"
    and dec: "for_range (decoder_step refuses self) [0 ..< n_layers_decoder self] d0 = Inr dec"
    and full: "add_layer refuses enc (Submodel dec) = Inr full"
    and a: "a = self\<lparr>encoder := enc, decoder := dec, full_model := full\<rparr>"
    by (auto simp: build_def then_do_eq_Inr Let_def)
  from x0 have x0': "x0 = [Input (input_dim self) ''encoder_input'']"
    by (simp add: add_layer_eq_Inr)
  have "x = x0 @ concat (map (encoder_block self) [0 ..< n_layers_encoder self])"
  proof (rule for_range_result [OF x])
    fix i y y' assume "i \<in> set [0 ..< n_layers_encoder self]"
      and "encoder_step refuses self i y = Inr y'"
    with assms(1-3) show "y' = y @ encoder_block self i"
      by (simp add: encoder_step_in_range add_layers_Inr)
  qed
  with x0' have x': "x = encoder_convs self"
    by (simp add: encoder_convs_def)
  from add_layers_Inr [OF enc] x'
  have enc': "enc = encoder_convs self
      @ [Flatten, Dense (z_dim self) (Some ''encoder_output'') None]"
    by simp
  from add_layers_Inr [OF d0] x'
  have d0': "d0 = [Input [z_dim self] ''decoder_input'',
      Dense (prod_list (int_shape (encoder_convs self))) None None,
      Reshape (int_shape (encoder_convs self))]"
    by simp
  have "dec = d0 @ concat (map (\<lambda>i. decoder_conv_t self i # decoder_after self i)
      [0 ..< n_layers_decoder self])"
  proof (rule for_range_result [OF dec])
    fix i y y' assume "i \<in> set [0 ..< n_layers_decoder self]"
      and "decoder_step refuses self i y = Inr y'"
    with assms(4-6) show "y' = y @ decoder_conv_t self i # decoder_after self i"
      by (simp add: decoder_step_in_range add_layers_Inr)
  qed
  with d0' have dec': "dec = decoder_layers int_shape self"
    by (simp add: decoder_layers_def)
  from full have "full = enc @ [Submodel dec]"
    by (simp add: add_layer_eq_Inr)
  with a enc' dec' show ?thesis by simp
qed

lemma build_Inl:
  assumes "n_layers_encoder self \<le> length (encoder_conv_filters self)"
    and "n_layers_encoder self \<le> length (encoder_conv_kernel_size self)"
    and "n_layers_encoder self \<le> length (encoder_conv_strides self)"
    and "n_layers_decoder self \<le> length (decoder_conv_t_filters self)"
    and "n_layers_decoder self \<le> length (decoder_conv_t_kernel_size self)"
    and "n_layers_decoder self \<le> length (decoder_conv_t_strides self)"
    and failed: "build refuses int_shape self = Inl e"
  shows "\<exists>m l. refuses m l = Some e"
proof -
  have enc_step: "\<exists>m l. refuses m l = Some e"
    if "for_range (encoder_step refuses self) [0 ..< n_layers_encoder self] y = Inl e" for y
  proof -
    from for_range_Inl [OF that] obtain i y' where "i < n_layers_encoder self"
      and "encoder_step refuses self i y' = Inl e"
      by auto
    with assms(1-3) have "add_layers refuses y' (encoder_block self i) = Inl e"
      by (simp add: encoder_step_in_range)
    from add_layers_Inl [OF this] show ?thesis by blast
  qed
  have dec_step: "\<exists>m l. refuses m l = Some e"
    if "for_range (decoder_step refuses self) [0 ..< n_layers_decoder self] y = Inl e" for y
  proof -
    from for_range_Inl [OF that] obtain i y' where "i < n_layers_decoder self"
      and "decoder_step refuses self i y' = Inl e"
      by auto
    with assms(4-6)
    have "add_layers refuses y' (decoder_conv_t self i # decoder_after self i) = Inl e"
      by (simp add: decoder_step_in_range)
    from add_layers_Inl [OF this] show ?thesis by blast
  qed
  from failed show ?thesis
    unfolding build_def Let_def then_do_eq_Inl add_layer_eq_Inl
    using enc_step dec_step add_layers_Inl [of refuses _ _ e] by blast
qed

lemma build_accepted:
  assumes "n_layers_encoder self \<le> length (encoder_conv_filters self)"
    and "n_layers_encoder self \<le> length (encoder_conv_kernel_size self)"
    and "n_layers_encoder self \<le> length (encoder_conv_strides self)"
    and "n_layers_decoder self \<le> length (decoder_conv_t_filters self)"
    and "n_layers_decoder self \<le> length (decoder_conv_t_kernel_size self)"
    and "n_layers_decoder self \<le> length (decoder_conv_t_strides self)"
    and accepts: "\<forall>m l. refuses m l = None"
  shows "\<exists>a. build refuses int_shape self = Inr a"
proof -
  have layers: "add_layers refuses x ls = Inr (x @ ls)" for x ls
    using accepts by (simp add: add_layers_accepted)
  have enc: "for_range (encoder_step refuses self) [0 ..< n_layers_encoder self] x
      = Inr (x @ concat (map (encoder_block self) [0 ..< n_layers_encoder self]))" for x
    using assms(1-3)
    by (intro for_range_appends) (simp add: encoder_step_in_range layers del: add_layers.simps)
  have dec: "for_range (decoder_step refuses self) [0 ..< n_layers_decoder self] x
      = Inr (x @ concat (map (\<lambda>i. decoder_conv_t self i # decoder_after self i)
                           [0 ..< n_layers_decoder self]))" for x
    using assms(4-6)
    by (intro for_range_appends) (simp add: decoder_step_in_range layers del: add_layers.simps)
  show ?thesis
    using accepts by (simp add: build_def enc dec layers Let_def add_layer_def)
qed

lemma attributes_simps [simp]:
  "encoder_conv_filters (attributes idim ef ek es df dk ds z bn dr) = ef"
  "encoder_conv_kernel_size (attributes idim ef ek es df dk ds z bn dr) = ek"
  "encoder_conv_strides (attributes idim ef ek es df dk ds z bn dr) = es"
  "decoder_conv_t_filters (attributes idim ef ek es df dk ds z bn dr) = df"
  "decoder_conv_t_kernel_size (attributes idim ef ek es df dk ds z bn dr) = dk"
  "decoder_conv_t_strides (attributes idim ef ek es df dk ds z bn dr) = ds"
  "n_layers_encoder (attributes idim ef ek es df dk ds z bn dr) = length ef"
  "n_layers_decoder (attributes idim ef ek es df dk ds z bn dr) = length df"
  "z_dim (attributes idim ef ek es df dk ds z bn dr) = z"
  "use_batch_norm (attributes idim ef ek es df dk ds z bn dr) = bn"
  "use_dropout (attributes idim ef ek es df dk ds z bn dr) = dr"
  "input_dim (attributes idim ef ek es df dk ds z bn dr) = idim"
  by (simp_all add: attributes_def)

lemma init_Inr:
  assumes "init refuses sh idim ef ek es df dk ds z bn dr = Inr a"
    and "self = attributes idim ef ek es df dk ds z bn dr"
  shows "length ef = length ek \<and> length ek = length es
      \<and> length df = length dk \<and> length dk = length ds"
    and "a = self
        \<lparr>encoder := encoder_convs self @ [Flatten, Dense z (Some ''encoder_output'') None],
         decoder := decoder_layers sh self,
         full_model := encoder_convs self
                    @ [Flatten, Dense z (Some ''encoder_output'') None,
                       Submodel (decoder_layers sh self)]\<rparr>"
proof -
  from assms(1) show agree: "length ef = length ek \<and> length ek = length es
      \<and> length df = length dk \<and> length dk = length ds"
    by (auto simp: init_def split: if_splits)
  with assms have "build refuses sh self = Inr a"
    by (simp add: init_def)
  from build_Inr [OF _ _ _ _ _ _ this] agree assms(2)
  show "a = self
        \<lparr>encoder := encoder_convs self @ [Flatten, Dense z (Some ''encoder_output'') None],
         decoder := decoder_layers sh self,
         full_model := encoder_convs self
                    @ [Flatten, Dense z (Some ''encoder_output'') None,
                       Submodel (decoder_layers sh self)]\<rparr>"
    by simp
qed

lemma init_accepted:
  assumes "length ef = length ek" "length ek = length es"
    and "length df = length dk" "length dk = length ds"
    and "\<forall>m l. refuses m l = None"
  shows "\<exists>a. init refuses sh idim ef ek es df dk ds z bn dr = Inr a"
proof -
  have "init refuses sh idim ef ek es df dk ds z bn dr
      = build refuses sh (attributes idim ef ek es df dk ds z bn dr)"
    using assms by (simp add: init_def)
  with assms build_accepted [of "attributes idim ef ek es df dk ds z bn dr" refuses sh]
  show ?thesis by simp
qed

text \<open>
  C9.  \<open>Autoencoder.__init__\<close> raises its own \<open>ValueError\<close>, and builds nothing, whenever
  the three encoder lists or the three decoder lists differ in length.  When both triples
  agree, its own checks pass and it proceeds to \<open>_build\<close> with \<open>n_layers_encoder\<close> and
  \<open>n_layers_decoder\<close> the common lengths; the list reads of \<open>_build\<close> are then in range,
  so either an object with the three models is returned, or the framework has refused a
  layer and its exception, which may be a \<open>ValueError\<close> too, leaves \<open>__init__\<close>.  An
  object is returned only when the lengths agree.
\<close>

theorem init_raises_iff_lengths_differ:
  "(\<not> (length ef = length ek \<and> length ek = length es) \<longrightarrow>
      init refuses sh idim ef ek es df dk ds z bn dr = Inl (ValueError
        ''Encoder filter sizes, kernel sizes, and strides must have the same length.''))
   \<and> (length ef = length ek \<and> length ek = length es
       \<and> \<not> (length df = length dk \<and> length dk = length ds) \<longrightarrow>
      init refuses sh idim ef ek es df dk ds z bn dr = Inl (ValueError
        ''Decoder filter sizes, kernel sizes, and strides must have the same length.''))
   \<and> (length ef = length ek \<and> length ek = length es
       \<and> length df = length dk \<and> length dk = length ds \<longrightarrow>
      init refuses sh idim ef ek es df dk ds z bn dr
        = build refuses sh (attributes idim ef ek es df dk ds z bn dr)
      \<and> n_layers_encoder (attributes idim ef ek es df dk ds z bn dr) = length ef
      \<and> n_layers_decoder (attributes idim ef ek es df dk ds z bn dr) = length df
      \<and> ((\<exists>a. init refuses sh idim ef ek es df dk ds z bn dr = Inr a
             \<and> n_layers_encoder a = length ef \<and> n_layers_decoder a = length df
             \<and> encoder a \<noteq> [] \<and> decoder a \<noteq> [] \<and> full_model a \<noteq> [])
          \<or> (\<exists>err m l. init refuses sh idim ef ek es df dk ds z bn dr = Inl err
                \<and> refuses m l = Some err)))
   \<and> (\<forall>a. init refuses sh idim ef ek es df dk ds z bn dr = Inr a \<longrightarrow>
         length ef = length ek \<and> length ek = length es
         \<and> length df = length dk \<and> length dk = length ds)"
proof (intro conjI impI allI)
  assume "\<not> (length ef = length ek \<and> length ek = length es)"
  then show "init refuses sh idim ef ek es df dk ds z bn dr = Inl (ValueError
        ''Encoder filter sizes, kernel sizes, and strides must have the same length.'')"
    by (simp add: init_def)
next
  assume "length ef = length ek \<and> length ek = length es
       \<and> \<not> (length df = length dk \<and> length dk = length ds)"
  then show "init refuses sh idim ef ek es df dk ds z bn dr = Inl (ValueError
        ''Decoder filter sizes, kernel sizes, and strides must have the same length.'')"
    by (simp add: init_def)
next
  fix a assume "init refuses sh idim ef ek es df dk ds z bn dr = Inr a"
  from init_Inr(1) [OF this refl]
  show "length ef = length ek" and "length ek = length es"
    and "length df = length dk" and "length dk = length ds"
    by simp_all
next
  assume agree: "length ef = length ek \<and> length ek = length es
       \<and> length df = length dk \<and> length dk = length ds"
  define self where "self = attributes idim ef ek es df dk ds z bn dr"
  from agree show eq: "init refuses sh idim ef ek es df dk ds z bn dr
        = build refuses sh (attributes idim ef ek es df dk ds z bn dr)"
    by (simp add: init_def)
  show "n_layers_encoder (attributes idim ef ek es df dk ds z bn dr) = length ef"
    and "n_layers_decoder (attributes idim ef ek es df dk ds z bn dr) = length df"
    by simp_all
  show "(\<exists>a. init refuses sh idim ef ek es df dk ds z bn dr = Inr a
             \<and> n_layers_encoder a = length ef \<and> n_layers_decoder a = length df
             \<and> encoder a \<noteq> [] \<and> decoder a \<noteq> [] \<and> full_model a \<noteq> [])
          \<or> (\<exists>err m l. init refuses sh idim ef ek es df dk ds z bn dr = Inl err
                \<and> refuses m l = Some err)"
  proof (cases "init refuses sh idim ef ek es df dk ds z bn dr")
    case (Inr a)
    from init_Inr(2) [OF Inr self_def]
    have "n_layers_encoder a = length ef" "n_layers_decoder a = length df"
      "encoder a \<noteq> []" "decoder a \<noteq> []" "full_model a \<noteq> []"
      by (simp_all add: self_def encoder_convs_def decoder_layers_def)
    with Inr show ?thesis by simp
  next
    case (Inl err)
    with eq have "build refuses sh self = Inl err"
      by (simp add: self_def)
    from build_Inl [OF _ _ _ _ _ _ this] agree
    have "\<exists>m l. refuses m l = Some err"
      by (simp add: self_def)
    with Inl show ?thesis by simp
  qed
qed

lemma filter_conv_t_decoder_after [simp]: "filter is_conv_t (decoder_after self i) = []"
  by (simp add: decoder_after_def)

lemma is_conv_t_decoder_conv_t [simp]: "is_conv_t (decoder_conv_t self i)"
  by (simp add: decoder_conv_t_def)

lemma conv_t_count_blocks:
  "length (filter is_conv_t
     (concat (map (\<lambda>i. decoder_conv_t self i # decoder_after self i) [0 ..< k]))) = k"
  by (induction k) simp_all

lemma sigmoid_not_in_earlier_blocks:
  assumes "k < n_layers_decoder self"
  shows "Activation ''sigmoid'' \<notin>
     set (concat (map (\<lambda>i. decoder_conv_t self i # decoder_after self i) [0 ..< k]))"
  using assms by (induction k) (auto simp: decoder_after_def decoder_conv_t_def)

lemma decoder_layers_split:
  assumes "i < n_layers_decoder self"
  shows "decoder_layers sh self =
     ([Input [z_dim self] ''decoder_input'',
       Dense (prod_list (sh (encoder_convs self))) None None,
       Reshape (sh (encoder_convs self))]
      @ concat (map (\<lambda>i. decoder_conv_t self i # decoder_after self i) [0 ..< i]))
     @ [decoder_conv_t self i] @ decoder_after self i
     @ concat (map (\<lambda>i. decoder_conv_t self i # decoder_after self i)
         [Suc i ..< n_layers_decoder self])"
proof -
  have "[0 ..< i + (n_layers_decoder self - i)] = [0 ..< i] @ [i ..< i + (n_layers_decoder self - i)]"
    by (rule upt_add_eq_append) simp
  with assms have "[0 ..< n_layers_decoder self] = [0 ..< i] @ i # [Suc i ..< n_layers_decoder self]"
    by (simp add: upt_conv_Cons)
  then show ?thesis
    by (simp add: decoder_layers_def)
qed

lemma sigmoid_range: "0 \<le> 1 / (1 + exp (- x :: real)) \<and> 1 / (1 + exp (- x)) \<le> 1"
proof -
  have "0 < exp (- x)" by simp
  then show ?thesis by (simp add: add_pos_pos less_imp_le)
qed

theorem init_raises_iff_lengths_differ_witness:
  "\<not> (length [32::int] = length [3::int, 3] \<and> length [3::int, 3] = length [1::int])
   \<and> init keras_refuses (\<lambda>m. [28, 28, 32]) [28, 28, 1] [32] [3, 3] [1] [64, 1] [3, 3] [2, 2]
        2 False False
       = Inl (ValueError
          ''Encoder filter sizes, kernel sizes, and strides must have the same length.'')
   \<and> length [32::int] = length [3::int] \<and> length [3::int] = length [1::int]
   \<and> length [64::int, 1] = length [3::int, 3] \<and> length [3::int, 3] = length [2::int, 2]
   \<and> n_layers_encoder (attributes [28, 28, 1] [32] [3] [1] [64, 1] [3, 3] [2, 2] 2
        False False) = 1
   \<and> n_layers_decoder (attributes [28, 28, 1] [32] [3] [1] [64, 1] [3, 3] [2, 2] 2
        False False) = 2"
  using init_raises_iff_lengths_differ
      [where ef = "[32]" and ek = "[3, 3]" and es = "[1]" and df = "[64, 1]" and dk = "[3, 3]"
         and ds = "[2, 2]" and sh = "\<lambda>m. [28, 28, 32]" and idim = "[28, 28, 1]" and z = 2
         and bn = False and dr = False and refuses = keras_refuses]
    init_raises_iff_lengths_differ
      [where ef = "[32]" and ek = "[3]" and es = "[1]" and df = "[64, 1]" and dk = "[3, 3]"
         and ds = "[2, 2]" and sh = "\<lambda>m. [28, 28, 32]" and idim = "[28, 28, 1]" and z = 2
         and bn = False and dr = False and refuses = keras_refuses]
  by simp

text \<open>
  With \<open>encoder_conv_filters = [0]\<close> all lists have length one, yet the framework refuses
  the convolution and \<open>__init__\<close> raises \<open>ValueError\<close>.
\<close>

theorem init_equal_lengths_counterexample:
  "length [0::int] = length [3::int] \<and> length [3::int] = length [1::int]
   \<and> length [1::int] = length [3::int] \<and> length [3::int] = length [1::int]
   \<and> init keras_refuses (\<lambda>m. [28, 28, 0]) [28, 28, 1] [0] [3] [1] [1] [3] [1] 2 False False
       = Inl (ValueError ''Invalid value for argument filters'')"
  by (simp add: init_def build_def attributes_def add_layer_def keras_refuses_def
      encoder_step_def py_index_def)

text \<open>
  C6.  In the decoder of a constructed autoencoder, the transposed convolution numbered
  \<open>i\<close> (the one with \<open>i\<close> transposed convolutions before it) is followed by
  \<open>LeakyReLU\<close>, then the optional batch normalization and dropout, when it is not the
  last; the last one is followed by \<open>Activation('sigmoid')\<close>, which ends the decoder and
  occurs nowhere before.  The sigmoid maps every real into \<open>[0, 1]\<close>.
\<close>

theorem decoder_ends_in_sigmoid:
  assumes "init refuses sh idim ef ek es df dk ds z bn dr = Inr a"
  shows "n_layers_decoder a = length df \<and> decoder_conv_t_filters a = df
     \<and> decoder_conv_t_kernel_size a = dk \<and> decoder_conv_t_strides a = ds
     \<and> (\<forall>i. i + 1 < length df \<longrightarrow>
          (\<exists>pre post. decoder a =
              pre @ [decoder_conv_t a i, LeakyReLU None]
                  @ (if bn then [BatchNormalization None] else [])
                  @ (if dr then [Dropout 0.25] else []) @ post
            \<and> length (filter is_conv_t pre) = i))
     \<and> (\<forall>i. i + 1 = length df \<longrightarrow>
          (\<exists>pre. decoder a = pre @ [decoder_conv_t a i, Activation ''sigmoid'']
            \<and> length (filter is_conv_t pre) = i
            \<and> Activation ''sigmoid'' \<notin> set pre))
     \<and> (\<exists>f. activation_fn ''sigmoid'' = Some f \<and> (\<forall>x. 0 \<le> f x \<and> f x \<le> 1))"
proof -
  define self where "self = attributes idim ef ek es df dk ds z bn dr"
  have a: "a = self
        \<lparr>encoder := encoder_convs self @ [Flatten, Dense z (Some ''encoder_output'') None],
         decoder := decoder_layers sh self,
         full_model := encoder_convs self
                    @ [Flatten, Dense z (Some ''encoder_output'') None,
                       Submodel (decoder_layers sh self)]\<rparr>"
    by (rule init_Inr(2) [OF assms self_def])
  have fields: "n_layers_decoder a = length df" "decoder_conv_t_filters a = df"
    "decoder_conv_t_kernel_size a = dk" "decoder_conv_t_strides a = ds"
    "decoder a = decoder_layers sh self" "n_layers_decoder self = length df"
    "use_batch_norm self = bn" "use_dropout self = dr"
    by (simp_all add: a self_def)
  have conv: "decoder_conv_t a i = decoder_conv_t self i" for i
    by (simp add: decoder_conv_t_def a)
  have inner: "\<exists>pre post. decoder a =
              pre @ [decoder_conv_t a i, LeakyReLU None]
                  @ (if bn then [BatchNormalization None] else [])
                  @ (if dr then [Dropout 0.25] else []) @ post
            \<and> length (filter is_conv_t pre) = i" if i: "i + 1 < length df" for i
  proof -
    define pre where "pre = [Input [z_dim self] ''decoder_input'',
           Dense (prod_list (sh (encoder_convs self))) None None,
           Reshape (sh (encoder_convs self))]
          @ concat (map (\<lambda>i. decoder_conv_t self i # decoder_after self i) [0 ..< i])"
    define post where "post =
      concat (map (\<lambda>i. decoder_conv_t self i # decoder_after self i) [Suc i ..< length df])"
    from i have "i < n_layers_decoder self" by (simp add: fields)
    from decoder_layers_split [OF this, of sh]
    have "decoder a = pre @ [decoder_conv_t a i] @ decoder_after self i @ post"
      by (simp only: fields conv pre_def post_def)
    moreover from i have "decoder_after self i = [LeakyReLU None]
                  @ (if bn then [BatchNormalization None] else [])
                  @ (if dr then [Dropout 0.25] else [])"
      by (simp add: decoder_after_def fields)
    moreover have "length (filter is_conv_t pre) = i"
      by (simp add: pre_def conv_t_count_blocks)
    ultimately show ?thesis by auto
  qed
  have final: "\<exists>pre. decoder a = pre @ [decoder_conv_t a i, Activation ''sigmoid'']
            \<and> length (filter is_conv_t pre) = i
            \<and> Activation ''sigmoid'' \<notin> set pre" if i: "i + 1 = length df" for i
  proof -
    define pre where "pre = [Input [z_dim self] ''decoder_input'',
           Dense (prod_list (sh (encoder_convs self))) None None,
           Reshape (sh (encoder_convs self))]
          @ concat (map (\<lambda>i. decoder_conv_t self i # decoder_after self i) [0 ..< i])"
    from i have lt: "i < n_layers_decoder self" by (simp add: fields)
    from i have up: "[Suc i ..< n_layers_decoder self] = []" by (simp add: fields)
    from i have after: "decoder_after self i = [Activation ''sigmoid'']"
      by (simp add: decoder_after_def fields)
    from decoder_layers_split [OF lt, of sh]
    have "decoder a = pre @ [decoder_conv_t a i] @ decoder_after self i"
      by (simp only: fields(5) conv pre_def up list.map concat.simps append_Nil2)
    with after have "decoder a = pre @ [decoder_conv_t a i, Activation ''sigmoid'']"
      by simp
    moreover have "length (filter is_conv_t pre) = i"
      by (simp add: pre_def conv_t_count_blocks)
    moreover have "Activation ''sigmoid'' \<notin> set pre"
      using sigmoid_not_in_earlier_blocks [OF lt] by (simp add: pre_def)
    ultimately show ?thesis by blast
  qed
  have "\<exists>f. activation_fn ''sigmoid'' = Some f \<and> (\<forall>x. 0 \<le> f x \<and> f x \<le> 1)"
    using sigmoid_range by (simp add: activation_fn_def)
  with fields(1-4) inner final show ?thesis by blast
qed

lemma example_autoencoder_built:
  "\<exists>a. init keras_refuses (\<lambda>m. [28, 28, 32]) [28, 28, 1] [32] [3] [1] [64, 1] [3, 3] [2, 2] 2
     bn False = Inr a"
  by (simp add: init_def build_def attributes_def add_layer_def keras_refuses_def
      encoder_step_def decoder_step_def py_index_def upt_conv_Cons then_do_def)

theorem decoder_ends_in_sigmoid_witness:
  "\<exists>a pre pre' post.
      init keras_refuses (\<lambda>m. [28, 28, 32]) [28, 28, 1] [32] [3] [1] [64, 1] [3, 3] [2, 2] 2 True False
        = Inr a
      \<and> decoder a = pre @ [decoder_conv_t a 1, Activation ''sigmoid'']
      \<and> decoder a = pre' @ [decoder_conv_t a 0, LeakyReLU None, BatchNormalization None] @ post"
proof -
  obtain a where a: "init keras_refuses (\<lambda>m. [28, 28, 32]) [28, 28, 1] [32] [3] [1] [64, 1] [3, 3] [2, 2] 2
      True False = Inr a"
    by (rule exE [OF example_autoencoder_built])
  from decoder_ends_in_sigmoid [OF a]
  have "\<exists>pre. decoder a = pre @ [decoder_conv_t a 1, Activation ''sigmoid'']"
    and "\<exists>pre' post. decoder a =
       pre' @ [decoder_conv_t a 0, LeakyReLU None, BatchNormalization None] @ post"
    by (simp_all, blast+)
  with a show ?thesis by blast
qed

subsection \<open>Construction of the generator\<close>

lemma generator_conv_result:
  assumes "generator_conv self i = Inr ls"
  shows "i < length (generator_upsample self) \<and> ls = generator_conv_layers self i"
  using assms
  by (auto simp: generator_conv_def generator_conv_layers_def then_do_eq_Inr py_index_eq_Inr
      split: if_splits)

lemma generator_step_result:
  assumes "generator_step self i x = Inr y"
  shows "i < length (generator_upsample self)
     \<and> y = x @ generator_conv_layers self i @ generator_tail self i"
  using assms generator_conv_result [of self i]
  by (auto simp: generator_step_def then_do_eq_Inr)

lemma build_generator_result:
  assumes "build_generator self = Inr g"
  shows "g = self\<lparr>generator := generator_stem self
     @ concat (map (\<lambda>i. generator_conv_layers self i @ generator_tail self i)
         [0 ..< n_layers_generator self])\<rparr>"
    and "\<forall>i < n_layers_generator self. i < length (generator_upsample self)"
proof -
  from assms obtain x where loop: "for_range (generator_step self)
      [0 ..< n_layers_generator self] (generator_stem self) = Inr x"
    and g: "g = self\<lparr>generator := x\<rparr>"
    by (auto simp: build_generator_def generator_stem_def then_do_eq_Inr)
  from for_range_result [OF loop, of "\<lambda>i. generator_conv_layers self i @ generator_tail self i"]
  have "x = generator_stem self
     @ concat (map (\<lambda>i. generator_conv_layers self i @ generator_tail self i)
         [0 ..< n_layers_generator self])"
    using generator_step_result by blast
  with g show "g = self\<lparr>generator := generator_stem self
     @ concat (map (\<lambda>i. generator_conv_layers self i @ generator_tail self i)
         [0 ..< n_layers_generator self])\<rparr>" by simp
  show "\<forall>i < n_layers_generator self. i < length (generator_upsample self)"
  proof (intro allI impI)
    fix i assume "i < n_layers_generator self"
    then have "i \<in> set [0 ..< n_layers_generator self]" by simp
    from for_range_each [OF loop this] generator_step_result
    show "i < length (generator_upsample self)" by blast
  qed
qed

lemma filter_conv_generator_tail [simp]:
  "filter is_generator_conv (generator_tail self i) = []"
  by (simp add: generator_tail_def batch_norm_if_def get_activation_def)

lemma filter_conv_generator_stem [simp]:
  "filter is_generator_conv (generator_stem self) = []"
  by (simp add: generator_stem_def batch_norm_if_def get_activation_def dropout_if_def
      split: option.splits)

lemma length_filter_conv_layers [simp]:
  "length (filter is_generator_conv (generator_conv_layers self i)) = 1"
  by (simp add: generator_conv_layers_def)




lemma generator_step_in_range:
  assumes "i < length (generator_upsample self)"
    and "i < length (generator_conv_filters self)"
    and "i < length (generator_conv_kernel_size self)"
    and "i < length (generator_conv_strides self)"
  shows "generator_step self i x
     = Inr (x @ generator_conv_layers self i @ generator_tail self i)"
  using assms
  by (simp add: generator_step_def generator_conv_def generator_conv_layers_def
      py_index_in_range)

lemma build_generator_in_range:
  assumes "n_layers_generator self \<le> length (generator_upsample self)"
    and "n_layers_generator self \<le> length (generator_conv_filters self)"
    and "n_layers_generator self \<le> length (generator_conv_kernel_size self)"
    and "n_layers_generator self \<le> length (generator_conv_strides self)"
  shows "build_generator self = Inr (self\<lparr>generator := generator_stem self
     @ concat (map (\<lambda>i. generator_conv_layers self i @ generator_tail self i)
         [0 ..< n_layers_generator self])\<rparr>)"
proof -
  have "for_range (generator_step self) [0 ..< n_layers_generator self] x
      = Inr (x @ concat (map (\<lambda>i. generator_conv_layers self i @ generator_tail self i)
                           [0 ..< n_layers_generator self]))" for x
    using assms by (intro for_range_appends generator_step_in_range) auto
  then show ?thesis
    by (simp add: build_generator_def generator_stem_def)
qed


subsection \<open>The latent dimension\<close>

lemma build_critic_result:
  assumes "build_critic self = Inr s"
  shows "\<exists>c. s = self\<lparr>critic := c\<rparr>"
  using assms by (auto simp: build_critic_def then_do_eq_Inr)

lemma build_critic_in_range:
  assumes "n_layers_critic self \<le> length (critic_conv_filters self)"
    and "n_layers_critic self \<le> length (critic_conv_kernel_size self)"
    and "n_layers_critic self \<le> length (critic_conv_strides self)"
  shows "\<exists>c. build_critic self = Inr (self\<lparr>critic := c\<rparr>)"
proof -
  define blk where "blk = (\<lambda>i.
      [Conv2D \<lparr>filters = critic_conv_filters self ! i,
               kernel_size = critic_conv_kernel_size self ! i,
               strides = Some (critic_conv_strides self ! i), padding = ''same'',
               layer_name = ''critic_conv_'' @ str_nat i,
               kernel_initializer = Some (weight_init self)\<rparr>]
      @ (if truthy (critic_batch_norm_momentum self) \<and> i > 0
         then [BatchNormalization (critic_batch_norm_momentum self)] else [])
      @ [get_activation (critic_activation self)]
      @ dropout_if (critic_dropout_rate self))"
  have step: "critic_step self i x = Inr (x @ blk i)"
    if "i < n_layers_critic self" for i x
    using that assms by (simp add: critic_step_def blk_def py_index_in_range)
  have "for_range (critic_step self) [0 ..< n_layers_critic self] x
      = Inr (x @ concat (map blk [0 ..< n_layers_critic self]))" for x
    by (intro for_range_appends step) auto
  then have "build_critic self = Inr (self\<lparr>critic :=
      Input (gan_input_dim self) ''critic_input'' # concat (map blk [0 ..< n_layers_critic self])
        @ [Flatten, Dense 1 None (Some (weight_init self))]\<rparr>)"
    by (simp add: build_critic_def)
  then show ?thesis by blast
qed

lemma gan_init_result:
  assumes "gan_init net0 idim cf ck cs cbn cact cdr clr gsize gup gf gk gs gbn gact gdr glr
             opt gw z bs = Inr g"
  shows "gan_z_dim g = z"
    and "\<exists>rest. generator g = Input [z] ''generator_input'' # rest"
proof -
  define self :: "('a, 'b) wgangp" where "self = gan_attributes net0 idim cf ck cs cbn cact cdr clr gsize gup gf gk gs gbn gact gdr glr
             opt gw z bs"
  from assms obtain s1 s2 where s1: "build_critic self = Inr s1"
    and s2: "build_generator s1 = Inr s2" and g: "g = build_adversarial s2"
    by (auto simp: gan_init_def build_gan_def then_do_eq_Inr self_def)
  from build_critic_result [OF s1] obtain c where c: "s1 = self\<lparr>critic := c\<rparr>"
    by blast
  have z1: "gan_z_dim s1 = z"
    by (simp add: c self_def gan_attributes_def)
  note gen = build_generator_result(1) [OF s2]
  have "gan_z_dim s2 = z"
    by (subst gen) (simp add: z1)
  then show "gan_z_dim g = z"
    by (simp add: g build_adversarial_def)
  have "generator s2 = generator_stem s1
     @ concat (map (\<lambda>i. generator_conv_layers s1 i @ generator_tail s1 i)
         [0 ..< n_layers_generator s1])"
    by (subst gen) simp
  then have "generator g = generator_stem s1
     @ concat (map (\<lambda>i. generator_conv_layers s1 i @ generator_tail s1 i)
         [0 ..< n_layers_generator s1])"
    by (simp add: g build_adversarial_def)
  then show "\<exists>rest. generator g = Input [z] ''generator_input'' # rest"
    by (simp add: generator_stem_def z1)
qed

lemma gan_init_in_range:
  assumes "length cf \<le> length ck" "length cf \<le> length cs"
    and "length gf \<le> length gup" "length gf \<le> length gk" "length gf \<le> length gs"
  shows "\<exists>g. gan_init net0 idim cf ck cs cbn cact cdr clr gsize gup gf gk gs gbn gact gdr glr
             opt gw z bs = Inr g"
proof -
  define self :: "('a, 'b) wgangp" where "self = gan_attributes net0 idim cf ck cs cbn cact cdr clr gsize gup gf gk gs gbn gact gdr glr
             opt gw z bs"
  have "\<exists>c. build_critic self = Inr (self\<lparr>critic := c\<rparr>)"
    using assms by (intro build_critic_in_range) (simp_all add: self_def gan_attributes_def)
  then obtain c where c: "build_critic self = Inr (self\<lparr>critic := c\<rparr>)" by blast
  have "\<exists>s2. build_generator (self\<lparr>critic := c\<rparr>) = Inr s2"
    using assms build_generator_in_range [of "self\<lparr>critic := c\<rparr>"]
    by (simp add: self_def gan_attributes_def)
  with c show ?thesis
    by (auto simp: gan_init_def build_gan_def self_def)
qed

text \<open>
  C8.  A constructed autoencoder keeps the \<open>z_dim\<close> it was given, its encoder ends in a
  dense layer of \<open>z_dim\<close> units and its decoder begins with an input of shape
  \<open>(z_dim,)\<close>; a constructed WGANGP keeps the \<open>z_dim\<close> it was given and its generator
  begins with an input of shape \<open>(z_dim,)\<close>.
\<close>

theorem z_dim_is_latent_size:
  "(init refuses sh idim ef ek es df dk ds z bn dr = Inr a \<longrightarrow>
      z_dim a = z
      \<and> (\<exists>pre. encoder a = pre @ [Dense z (Some ''encoder_output'') None])
      \<and> (\<exists>rest. decoder a = Input [z] ''decoder_input'' # rest))
   \<and> (gan_init net0 gdim cf ck cs cbn cact cdr clr gsize gup gf gk gs gbn gact gdr glr
         opt gw z' bs = Inr g \<longrightarrow>
      gan_z_dim g = z'
      \<and> (\<exists>rest. generator g = Input [z'] ''generator_input'' # rest))"
proof (intro conjI impI)
  assume a: "init refuses sh idim ef ek es df dk ds z bn dr = Inr a"
  define self where "self = attributes idim ef ek es df dk ds z bn dr"
  have eq: "a = self
        \<lparr>encoder := encoder_convs self @ [Flatten, Dense z (Some ''encoder_output'') None],
         decoder := decoder_layers sh self,
         full_model := encoder_convs self
                    @ [Flatten, Dense z (Some ''encoder_output'') None,
                       Submodel (decoder_layers sh self)]\<rparr>"
    by (rule init_Inr(2) [OF a self_def])
  show "z_dim a = z"
    by (simp add: eq self_def)
  have "encoder a = (encoder_convs self @ [Flatten]) @ [Dense z (Some ''encoder_output'') None]"
    by (simp add: eq)
  then show "\<exists>pre. encoder a = pre @ [Dense z (Some ''encoder_output'') None]"
    by blast
  show "\<exists>rest. decoder a = Input [z] ''decoder_input'' # rest"
    by (simp add: eq decoder_layers_def self_def)
next
  assume g: "gan_init net0 gdim cf ck cs cbn cact cdr clr gsize gup gf gk gs gbn gact gdr glr
         opt gw z' bs = Inr g"
  from gan_init_result(1) [OF g] show "gan_z_dim g = z'" .
  from gan_init_result(2) [OF g]
  show "\<exists>rest. generator g = Input [z'] ''generator_input'' # rest" .
qed

theorem z_dim_is_latent_size_witness:
  "\<exists>a (g :: (unit, unit) wgangp).
     init keras_refuses (\<lambda>m. [28, 28, 32]) [28, 28, 1] [32] [3] [1] [64, 1] [3, 3] [2, 2] 2 False False
       = Inr a
     \<and> gan_init () [28, 28, 1] [64] [5] [2] None ''leaky_relu'' None (1 / 5000)
         [7, 7, 64] [2, 2] [64, 1] [5, 5] [1, 1] (Some (9 / 10)) ''leaky_relu'' None
         (1 / 5000) ''rmsprop'' 10 100 64 = Inr g
     \<and> z_dim a = 2 \<and> (\<exists>rest. decoder a = Input [2] ''decoder_input'' # rest)
     \<and> gan_z_dim g = 100 \<and> (\<exists>rest. generator g = Input [100] ''generator_input'' # rest)"
proof -
  obtain a where a: "init keras_refuses (\<lambda>m. [28, 28, 32]) [28, 28, 1] [32] [3] [1] [64, 1] [3, 3] [2, 2] 2
      False False = Inr a"
    by (rule exE [OF example_autoencoder_built])
  obtain g :: "(unit, unit) wgangp" where g:
    "gan_init () [28, 28, 1] [64] [5] [2] None ''leaky_relu'' None (1 / 5000)
         [7, 7, 64] [2, 2] [64, 1] [5, 5] [1, 1] (Some (9 / 10)) ''leaky_relu'' None
         (1 / 5000) ''rmsprop'' 10 100 64 = Inr g"
    using gan_init_in_range [where ?'a = unit and ?'b = unit,
        of "[64]" "[5]" "[2]" "[64, 1]" "[2, 2]" "[5, 5]" "[1, 1]" "()" "[28, 28, 1]" None
           "''leaky_relu''" None "1 / 5000" "[7, 7, 64]" "Some (9 / 10)" "''leaky_relu''" None
           "1 / 5000" "''rmsprop''" 10 100 64]
    by auto
  from z_dim_is_latent_size [where a = a and g = g and refuses = keras_refuses and sh = "\<lambda>m. [28, 28, 32]"
      and idim = "[28, 28, 1]" and ef = "[32]" and ek = "[3]" and es = "[1]"
      and df = "[64, 1]" and dk = "[3, 3]" and ds = "[2, 2]" and z = 2 and bn = False
      and dr = False and ?net0.0 = "()" and gdim = "[28, 28, 1]" and cf = "[64]"
      and ck = "[5]" and cs = "[2]" and cbn = None and cact = "''leaky_relu''"
      and cdr = None and clr = "1 / 5000" and gsize = "[7, 7, 64]" and gup = "[2, 2]"
      and gf = "[64, 1]" and gk = "[5, 5]" and gs = "[1, 1]" and gbn = "Some (9 / 10)"
      and gact = "''leaky_relu''" and gdr = None and glr = "1 / 5000"
      and opt = "''rmsprop''" and gw = 10 and z' = 100 and bs = 64] a g
  show ?thesis by simp
qed

subsection \<open>Sums over tensors\<close>

lemma sum_list_as_sum: "sum_list (xs :: real list) = (\<Sum>i<length xs. xs ! i)"
  by (simp add: sum_list_sum_nth atLeast0LessThan)

lemma sum_list_concat_map: "sum_list (concat xss) = sum_list (map sum_list (xss :: real list list))"
  by (induction xss) simp_all

lemma sum_list_concat_as_sum:
  "sum_list (concat (xss :: real list list)) = (\<Sum>i<length xss. sum_list (xss ! i))"
proof -
  have "sum_list (concat xss) = sum_list (map sum_list xss)"
    by (rule sum_list_concat_map)
  also have "\<dots> = (\<Sum>i<length xss. sum_list (xss ! i))"
    by (simp add: sum_list_as_sum)
  finally show ?thesis .
qed

lemma sample_sum:
  "sum_list (concat (concat (s :: real list list list)))
     = (\<Sum>j<length s. \<Sum>k<length (s ! j). \<Sum>l<length (s ! j ! k). s ! j ! k ! l)"
proof -
  have "sum_list (concat (concat s)) = sum_list (map sum_list (concat s))"
    by (rule sum_list_concat_map)
  also have "\<dots> = sum_list (concat (map (map sum_list) s))"
    by (simp add: map_concat)
  also have "\<dots> = (\<Sum>j<length s. sum_list (map sum_list (s ! j)))"
    by (simp add: sum_list_concat_as_sum)
  also have "\<dots> = (\<Sum>j<length s. \<Sum>k<length (s ! j). \<Sum>l<length (s ! j ! k). s ! j ! k ! l)"
    by (simp add: sum_list_as_sum)
  finally show ?thesis .
qed

lemma length_concat_regular:
  assumes "\<forall>i<length xss. length (xss ! i) = n"
  shows "length (concat xss) = length xss * n"
  using assms
proof (induction xss)
  case Nil
  then show ?case by simp
next
  case (Cons xs xss)
  from Cons.prems have "length xs = n" by auto
  moreover from Cons.prems have "\<forall>i<length xss. length (xss ! i) = n" by auto
  ultimately show ?case using Cons.IH by simp
qed

lemma sample_count:
  assumes "length s = h"
    and "\<forall>j<h. length (s ! j) = w \<and> (\<forall>k<w. length (s ! j ! k) = c)"
  shows "length (concat (concat s)) = h * w * c"
proof -
  have "\<forall>j<length s. length (s ! j) = w"
    using assms by simp
  then have "length (concat s) = length s * w"
    by (rule length_concat_regular)
  with assms(1) have outer: "length (concat s) = h * w"
    by simp
  have "\<forall>i<length (concat s). length (concat s ! i) = c"
  proof (intro allI impI)
    fix i assume "i < length (concat s)"
    then have "concat s ! i \<in> set (concat s)" by (rule nth_mem)
    then obtain r where r: "r \<in> set s" and mem: "concat s ! i \<in> set r" by auto
    from r obtain j where j: "j < length s" "r = s ! j"
      by (auto simp: in_set_conv_nth)
    from mem obtain k where k: "k < length r" "concat s ! i = r ! k"
      by (auto simp: in_set_conv_nth)
    with j assms show "length (concat s ! i) = c" by auto
  qed
  then have "length (concat (concat s)) = length (concat s) * c"
    by (rule length_concat_regular)
  with outer show ?thesis by simp
qed

lemma has_shape4_iff:
  "has_shape4 t b h w c \<longleftrightarrow>
     length t = b \<and> (\<forall>i<b. length (t ! i) = h
       \<and> (\<forall>j<h. length (t ! i ! j) = w \<and> (\<forall>k<w. length (t ! i ! j ! k) = c)))"
  by (auto simp: has_shape4_def list_all_length)

lemma nth_map2:
  assumes "i < length xs" "i < length ys"
  shows "map2 f xs ys ! i = f (xs ! i) (ys ! i)"
  using assms by simp

text \<open>
  C3.  For two batches of the same shape \<open>(b, h, w, c)\<close> with \<open>h, w, c > 0\<close>, \<open>r_loss\<close>
  returns one number per sample: the mean, over height, width and channel, of the squared
  difference of the entries.  \<open>Autoencoder.train\<close> on a compiled autoencoder calls \<open>fit\<close>
  with \<open>x_train\<close> as input and as target, on a model whose loss is \<open>r_loss\<close>.
\<close>

theorem r_loss_is_mean_squared_error:
  "(has_shape4 y_true b h w c \<and> has_shape4 y_pred b h w c \<and> 0 < h \<and> 0 < w \<and> 0 < c \<longrightarrow>
      length (r_loss y_true y_pred) = b
      \<and> (\<forall>i<b. r_loss y_true y_pred ! i =
            (\<Sum>j<h. \<Sum>k<w. \<Sum>l<c.
               (y_true ! i ! j ! k ! l - y_pred ! i ! j ! k ! l)\<^sup>2) / real (h * w * c)))
   \<and> (\<exists>call. train (compile self lr) x_train batch_size epochs run_folder pe ie lr_decay
                 = Inr call
          \<and> fit_x call = x_train \<and> fit_y call = x_train \<and> fit_loss call = r_loss)"
proof (intro conjI impI allI)
  assume shp: "has_shape4 y_true b h w c \<and> has_shape4 y_pred b h w c \<and> 0 < h \<and> 0 < w \<and> 0 < c"
  then have t: "length y_true = b" "\<And>i. i < b \<Longrightarrow> length (y_true ! i) = h"
    "\<And>i j. i < b \<Longrightarrow> j < h \<Longrightarrow> length (y_true ! i ! j) = w"
    "\<And>i j k. i < b \<Longrightarrow> j < h \<Longrightarrow> k < w \<Longrightarrow> length (y_true ! i ! j ! k) = c"
    and p: "length y_pred = b" "\<And>i. i < b \<Longrightarrow> length (y_pred ! i) = h"
    "\<And>i j. i < b \<Longrightarrow> j < h \<Longrightarrow> length (y_pred ! i ! j) = w"
    "\<And>i j k. i < b \<Longrightarrow> j < h \<Longrightarrow> k < w \<Longrightarrow> length (y_pred ! i ! j ! k) = c"
    by (simp_all add: has_shape4_iff)
  show len: "length (r_loss y_true y_pred) = b"
    by (simp add: r_loss_def tf_reduce_mean_123_def tf_square_def tf_subtract_def t p)
  fix i assume i: "i < b"
  define s where "s = tf_square (tf_subtract y_true y_pred) ! i"
  have s_len: "length s = h"
    using i by (simp add: s_def tf_square_def tf_subtract_def t p)
  have s_len2: "length (s ! j) = w" if "j < h" for j
    using i that by (simp add: s_def tf_square_def tf_subtract_def t p)
  have s_len3: "length (s ! j ! k) = c" if "j < h" "k < w" for j k
    using i that by (simp add: s_def tf_square_def tf_subtract_def t p)
  have s_val: "s ! j ! k ! l = (y_true ! i ! j ! k ! l - y_pred ! i ! j ! k ! l)\<^sup>2"
    if "j < h" "k < w" "l < c" for j k l
    using i that by (simp add: s_def tf_square_def tf_subtract_def t p power2_eq_square)
  have "r_loss y_true y_pred ! i
      = sum_list (concat (concat s)) / real (length (concat (concat s)))"
    using i by (simp add: r_loss_def tf_reduce_mean_123_def s_def tf_square_def
        tf_subtract_def t p)
  also have "length (concat (concat s)) = h * w * c"
    using s_len s_len2 s_len3 by (intro sample_count) auto
  also have "sum_list (concat (concat s))
      = (\<Sum>j<h. \<Sum>k<w. \<Sum>l<c. (y_true ! i ! j ! k ! l - y_pred ! i ! j ! k ! l)\<^sup>2)"
    by (simp add: sample_sum s_len s_len2 s_len3 s_val)
  finally show "r_loss y_true y_pred ! i =
            (\<Sum>j<h. \<Sum>k<w. \<Sum>l<c.
               (y_true ! i ! j ! k ! l - y_pred ! i ! j ! k ! l)\<^sup>2) / real (h * w * c)" .
next
  show "\<exists>call. train (compile self lr) x_train batch_size epochs run_folder pe ie lr_decay
                 = Inr call
          \<and> fit_x call = x_train \<and> fit_y call = x_train \<and> fit_loss call = r_loss"
    by (simp add: train_def compile_def)
qed

theorem r_loss_is_mean_squared_error_witness:
  "has_shape4 [[[[1, 2]]]] 1 1 1 2 \<and> has_shape4 [[[[0, 0]]]] 1 1 1 2
   \<and> r_loss [[[[1, 2]]]] [[[[0, 0]]]] ! 0 = 5 / 2"
proof -
  have shp: "has_shape4 [[[[1, 2]]]] 1 1 1 2 \<and> has_shape4 [[[[0, 0]]]] 1 1 1 2
      \<and> (0::nat) < 1 \<and> (0::nat) < 1 \<and> (0::nat) < 2"
    by (simp add: has_shape4_def)
  from r_loss_is_mean_squared_error
    [where y_true = "[[[[1, 2]]]]" and y_pred = "[[[[0, 0]]]]" and b = 1 and h = 1 and w = 1
       and c = 2, THEN conjunct1, rule_format, OF shp]
  have "r_loss [[[[1, 2]]]] [[[[0, 0]]]] ! 0 =
      (\<Sum>j<(1::nat). \<Sum>k<(1::nat). \<Sum>l<(2::nat).
         ([[[[1, 2]]]] ! 0 ! j ! k ! l - [[[[0, 0 :: real]]]] ! 0 ! j ! k ! l)\<^sup>2)
        / real (1 * 1 * 2)"
    by simp
  also have "\<dots> = 5 / 2"
    by (simp add: numeral_2_eq_2)
  finally show ?thesis using shp by simp
qed

subsection \<open>The Wasserstein loss\<close>

lemma has_shape2_iff:
  "has_shape2 t b n \<longleftrightarrow> length t = b \<and> (\<forall>i<b. length (t ! i) = n)"
  by (auto simp: has_shape2_def list_all_length)

lemma K_mean2_as_sum:
  assumes "has_shape2 t b n"
  shows "K_mean2 t = (\<Sum>i<b. \<Sum>j<n. t ! i ! j) / real (b * n)"
proof -
  from assms have len: "length t = b" and rows: "\<forall>i<length t. length (t ! i) = n"
    by (simp_all add: has_shape2_iff)
  have "sum_list (concat t) = (\<Sum>i<length t. sum_list (t ! i))"
    by (rule sum_list_concat_as_sum)
  also have "\<dots> = (\<Sum>i<b. \<Sum>j<n. t ! i ! j)"
    using len rows by (simp add: sum_list_as_sum)
  finally have "sum_list (concat t) = (\<Sum>i<b. \<Sum>j<n. t ! i ! j)" .
  moreover have "length (concat t) = b * n"
    using length_concat_regular [OF rows] len by simp
  ultimately show ?thesis
    by (simp add: K_mean2_def)
qed

lemma has_shape2_product:
  assumes "has_shape2 x b n" "has_shape2 y b n"
  shows "has_shape2 (map2 (map2 (\<lambda>u v. u * v)) x y) b n"
    and "\<And>i j. i < b \<Longrightarrow> j < n \<Longrightarrow>
           map2 (map2 (\<lambda>u v. u * v)) x y ! i ! j = x ! i ! j * y ! i ! j"
  using assms by (simp_all add: has_shape2_iff)

lemma wasserstein_as_sum:
  assumes "has_shape2 y_true b n" "has_shape2 y_pred b n"
  shows "wasserstein y_true y_pred
     = - ((\<Sum>i<b. \<Sum>j<n. y_true ! i ! j * y_pred ! i ! j) / real (b * n))"
proof -
  note prod = has_shape2_product [OF assms]
  have "K_mean2 (map2 (map2 (\<lambda>u v. u * v)) y_true y_pred)
      = (\<Sum>i<b. \<Sum>j<n. map2 (map2 (\<lambda>u v. u * v)) y_true y_pred ! i ! j) / real (b * n)"
    by (rule K_mean2_as_sum [OF prod(1)])
  also have "(\<Sum>i<b. \<Sum>j<n. map2 (map2 (\<lambda>u v. u * v)) y_true y_pred ! i ! j)
      = (\<Sum>i<b. \<Sum>j<n. y_true ! i ! j * y_pred ! i ! j)"
    by (intro sum.cong refl) (simp add: prod(2))
  finally show ?thesis
    by (simp add: wasserstein_def)
qed

lemma has_shape2_np_full: "has_shape2 (np_full v n) n 1"
  by (simp add: has_shape2_iff np_full_def)

lemma wasserstein_constant_labels:
  assumes "has_shape2 scores n 1"
  shows "wasserstein (np_full v n) scores = - (v * K_mean2 scores)"
proof -
  have "wasserstein (np_full v n) scores
      = - ((\<Sum>i<n. \<Sum>j<1. np_full v n ! i ! j * scores ! i ! j) / real (n * 1))"
    by (rule wasserstein_as_sum [OF has_shape2_np_full assms])
  also have "(\<Sum>i<n. \<Sum>j<1. np_full v n ! i ! j * scores ! i ! j)
      = (\<Sum>i<n. \<Sum>j<1. v * scores ! i ! j)"
    by (intro sum.cong refl) (simp add: np_full_def)
  also have "\<dots> = v * (\<Sum>i<n. \<Sum>j<1. scores ! i ! j)"
    by (simp add: sum_distrib_left)
  finally show ?thesis
    by (simp add: K_mean2_as_sum [OF assms])
qed

text \<open>
  C4.  For two tensors of the same shape \<open>(b, n)\<close>, \<open>wasserstein\<close> is the negated mean of
  the products of corresponding entries.  \<open>train_critic\<close> hands the framework the targets
  all ones, all minus ones and all zeros (a framework that returns the targets it is given
  makes them visible).  With these targets and critic scores of shape \<open>(batch_size, 1)\<close>,
  the losses of the real and the fake head add up to the mean fake score minus the mean
  real score, and the loss of the compiled critic model is that difference plus
  \<open>grad_weight\<close> times the gradient penalty.
\<close>

theorem wasserstein_is_negated_mean_product:
  "(has_shape2 y_true b n \<and> has_shape2 y_pred b n \<and> 0 < b \<and> 0 < n \<longrightarrow>
      wasserstein y_true y_pred
        = - ((\<Sum>i<b. \<Sum>j<n. y_true ! i ! j * y_pred ! i ! j) / real (b * n)))
   \<and> (critic_model_train_on_batch fw = (\<lambda>m x ys. (ys, m)) \<longrightarrow>
      fst (train_critic fw self batch_size using_generator)
        = [np_full 1 batch_size, np_full (- 1) batch_size, np_full 0 batch_size])
   \<and> (has_shape2 real_scores batch_size 1 \<and> has_shape2 fake_scores batch_size 1
       \<and> 0 < batch_size \<longrightarrow>
      wasserstein (np_full 1 batch_size) real_scores
        + wasserstein (np_full (- 1) batch_size) fake_scores
        = K_mean2 fake_scores - K_mean2 real_scores
      \<and> (\<exists>m. critic_model (build_adversarial obj) = Some m
            \<and> total_loss K_gradients interpolated_img m
                 [np_full 1 batch_size, np_full (- 1) batch_size, np_full 0 batch_size]
                 [real_scores, fake_scores, interpolated_scores]
               = (K_mean2 fake_scores - K_mean2 real_scores)
                 + grad_weight obj
                   * gradient_penalty_loss K_gradients (np_full 0 batch_size)
                       interpolated_scores interpolated_img))"
proof (intro conjI impI)
  assume "has_shape2 y_true b n \<and> has_shape2 y_pred b n \<and> 0 < b \<and> 0 < n"
  then show "wasserstein y_true y_pred
        = - ((\<Sum>i<b. \<Sum>j<n. y_true ! i ! j * y_pred ! i ! j) / real (b * n))"
    by (intro wasserstein_as_sum) simp_all
next
  assume "critic_model_train_on_batch fw = (\<lambda>m x ys. (ys, m))"
  then show "fst (train_critic fw self batch_size using_generator)
        = [np_full 1 batch_size, np_full (- 1) batch_size, np_full 0 batch_size]"
    by (simp add: train_critic_def Let_def split: prod.splits)
next
  assume shp: "has_shape2 real_scores batch_size 1 \<and> has_shape2 fake_scores batch_size 1
       \<and> 0 < batch_size"
  then show heads: "wasserstein (np_full 1 batch_size) real_scores
        + wasserstein (np_full (- 1) batch_size) fake_scores
        = K_mean2 fake_scores - K_mean2 real_scores"
    by (simp add: wasserstein_constant_labels)
  have "critic_model (build_adversarial obj) = Some
            \<lparr>inputs = [''real_img'', ''z_disc''],
             outputs = [''valid'', ''fake'', ''validity_interpolated''],
             loss = [Wasserstein, Wasserstein, GradientPenalty],
             loss_weights = [1, 1, grad_weight obj],
             optimizer_of = get_opti obj (critic_learning_rate obj),
             critic_trainable = True, generator_trainable = False\<rparr>"
    by (simp add: build_adversarial_def)
  moreover have "total_loss K_gradients interpolated_img
            \<lparr>inputs = [''real_img'', ''z_disc''],
             outputs = [''valid'', ''fake'', ''validity_interpolated''],
             loss = [Wasserstein, Wasserstein, GradientPenalty],
             loss_weights = [1, 1, grad_weight obj],
             optimizer_of = get_opti obj (critic_learning_rate obj),
             critic_trainable = True, generator_trainable = False\<rparr>
                 [np_full 1 batch_size, np_full (- 1) batch_size, np_full 0 batch_size]
                 [real_scores, fake_scores, interpolated_scores]
               = (K_mean2 fake_scores - K_mean2 real_scores)
                 + grad_weight obj
                   * gradient_penalty_loss K_gradients (np_full 0 batch_size)
                       interpolated_scores interpolated_img"
    using heads by (simp add: total_loss_def eval_loss_def)
  ultimately show "\<exists>m. critic_model (build_adversarial obj) = Some m
            \<and> total_loss K_gradients interpolated_img m
                 [np_full 1 batch_size, np_full (- 1) batch_size, np_full 0 batch_size]
                 [real_scores, fake_scores, interpolated_scores]
               = (K_mean2 fake_scores - K_mean2 real_scores)
                 + grad_weight obj
                   * gradient_penalty_loss K_gradients (np_full 0 batch_size)
                       interpolated_scores interpolated_img"
    by simp
qed

theorem wasserstein_is_negated_mean_product_witness:
  "has_shape2 [[1], [1]] 2 1 \<and> has_shape2 [[3], [5]] 2 1
   \<and> wasserstein [[1], [1]] [[3], [5]] = - 4
   \<and> has_shape2 [[2], [4]] 2 1
   \<and> wasserstein (np_full 1 2) [[3], [5]] + wasserstein (np_full (- 1) 2) [[2], [4]]
       = K_mean2 [[2], [4]] - K_mean2 [[3], [5]]
   \<and> fst (train_critic
        (\<lparr>next_batch = \<lambda>m. ([], m), random_rows = \<lambda>m k. ([], m),
         random_normal = \<lambda>m k z. ([], m),
         critic_model_train_on_batch = \<lambda>m x ys. (ys, m),
         model_train_on_batch = \<lambda>m x y. ([], m)\<rparr> :: (unit, tensor2 list) keras)
        (gan_attributes () [28, 28, 1] [64] [5] [2] None ''leaky_relu'' None (1 / 5000)
           [7, 7, 64] [2, 1] [64, 1] [5, 5] [1, 1] (Some (9 / 10)) ''leaky_relu'' None
           (1 / 5000) ''rmsprop'' 10 100 64)
        2 False)
       = [[[1], [1]], [[- 1], [- 1]], [[0], [0]]]"
proof -
  have a: "has_shape2 [[1], [1]] 2 1 \<and> has_shape2 [[3], [5]] 2 1 \<and> (0::nat) < 2 \<and> (0::nat) < 1"
    by (simp add: has_shape2_def)
  have b: "has_shape2 [[3], [5]] 2 1 \<and> has_shape2 [[2], [4]] 2 1 \<and> (0::nat) < 2"
    by (simp add: has_shape2_def)
  have c: "critic_model_train_on_batch
        (\<lparr>next_batch = \<lambda>m. ([], m), random_rows = \<lambda>m k. ([], m),
         random_normal = \<lambda>m k z. ([], m),
         critic_model_train_on_batch = \<lambda>m x ys. (ys, m),
         model_train_on_batch = \<lambda>m x y. ([], m)\<rparr> :: (unit, tensor2 list) keras) = (\<lambda>m x ys. (ys, m))"
    by simp
  note inst = wasserstein_is_negated_mean_product
    [where y_true = "[[1], [1]]" and y_pred = "[[3], [5]]" and b = 2 and n = 1
       and real_scores = "[[3], [5]]" and fake_scores = "[[2], [4]]" and batch_size = 2]
  from inst [THEN conjunct1, rule_format, OF a]
  have "wasserstein [[1], [1]] [[3], [5]] = - 4"
    by (simp add: numeral_2_eq_2)
  moreover from inst [THEN conjunct2, THEN conjunct2, rule_format, OF b, THEN conjunct1]
  have "wasserstein (np_full 1 2) [[3], [5]] + wasserstein (np_full (- 1) 2) [[2], [4]]
       = K_mean2 [[2], [4]] - K_mean2 [[3], [5]]" .
  moreover from inst [THEN conjunct2, THEN conjunct1, rule_format, OF c]
  have "fst (train_critic
        (\<lparr>next_batch = \<lambda>m. ([], m), random_rows = \<lambda>m k. ([], m),
         random_normal = \<lambda>m k z. ([], m),
         critic_model_train_on_batch = \<lambda>m x ys. (ys, m),
         model_train_on_batch = \<lambda>m x y. ([], m)\<rparr> :: (unit, tensor2 list) keras)
        (gan_attributes () [28, 28, 1] [64] [5] [2] None ''leaky_relu'' None (1 / 5000)
           [7, 7, 64] [2, 1] [64, 1] [5, 5] [1, 1] (Some (9 / 10)) ''leaky_relu'' None
           (1 / 5000) ''rmsprop'' 10 100 64)
        2 False)
       = [[[1], [1]], [[- 1], [- 1]], [[0], [0]]]"
    by (simp add: np_full_def numeral_2_eq_2)
  ultimately show ?thesis using a b by simp
qed

subsection \<open>The gradient penalty\<close>

lemma squared_sample_norm:
  "sqrt (sum_list (concat (concat (map (map (map (\<lambda>x. x * x))) s)))) = l2_norm s"
proof -
  have "sum_list (concat (concat (map (map (map (\<lambda>x. x * x))) s)))
      = (\<Sum>j<length s. \<Sum>k<length (s ! j). \<Sum>l<length (s ! j ! k). (s ! j ! k ! l)\<^sup>2)"
    by (simp add: sample_sum power2_eq_square)
  then show ?thesis
    by (simp add: l2_norm_def)
qed

lemma gradient_penalty_loss_as_sum:
  assumes "K_gradients y_pred x = g"
  shows "gradient_penalty_loss K_gradients y_true y_pred x
     = (\<Sum>i<length g. (1 - l2_norm (g ! i))\<^sup>2) / real (length g)"
proof -
  have "map (\<lambda>n. (1 - n) * (1 - n)) (map sqrt (K_sum_axes_from_1 (tf_square g)))
      = map (\<lambda>s. (1 - l2_norm s)\<^sup>2) g"
    by (simp add: K_sum_axes_from_1_def tf_square_def squared_sample_norm power2_eq_square)
  then have "gradient_penalty_loss K_gradients y_true y_pred x
      = K_mean (map (\<lambda>s. (1 - l2_norm s)\<^sup>2) g)"
    by (simp add: gradient_penalty_loss_def assms Let_def)
  also have "\<dots> = (\<Sum>i<length g. (1 - l2_norm (g ! i))\<^sup>2) / real (length g)"
    by (simp add: K_mean_def sum_list_as_sum)
  finally show ?thesis .
qed

text \<open>
  C1.  Let \<open>g\<close> be the batch of per-sample gradients the framework computes for the
  critic's output on the interpolated samples, and let the batch be non-empty.  Then
  \<open>gradient_penalty_loss\<close> is the mean over the batch of \<open>(1 - norm)\<^sup>2\<close>, where \<open>norm\<close> is
  the L2 norm of the sample's gradient; it is nonnegative, and it is zero exactly when
  every sample's gradient has L2 norm 1.
\<close>

theorem gradient_penalty_is_mean_squared_deviation:
  "K_gradients y_pred x = g \<and> g \<noteq> [] \<longrightarrow>
     gradient_penalty_loss K_gradients y_true y_pred x
       = (\<Sum>i<length g. (1 - l2_norm (g ! i))\<^sup>2) / real (length g)
     \<and> 0 \<le> gradient_penalty_loss K_gradients y_true y_pred x
     \<and> (gradient_penalty_loss K_gradients y_true y_pred x = 0
          \<longleftrightarrow> (\<forall>i<length g. l2_norm (g ! i) = 1))"
proof (intro impI)
  assume asm: "K_gradients y_pred x = g \<and> g \<noteq> []"
  then have pos: "0 < real (length g)" by simp
  from asm have eq: "gradient_penalty_loss K_gradients y_true y_pred x
       = (\<Sum>i<length g. (1 - l2_norm (g ! i))\<^sup>2) / real (length g)"
    by (simp add: gradient_penalty_loss_as_sum)
  have nonneg: "0 \<le> (\<Sum>i<length g. (1 - l2_norm (g ! i))\<^sup>2)"
    by (intro sum_nonneg) simp
  have "(\<Sum>i<length g. (1 - l2_norm (g ! i))\<^sup>2) = 0
      \<longleftrightarrow> (\<forall>i\<in>{..<length g}. (1 - l2_norm (g ! i))\<^sup>2 = 0)"
    by (intro sum_nonneg_eq_0_iff) simp_all
  then have zero: "(\<Sum>i<length g. (1 - l2_norm (g ! i))\<^sup>2) = 0
      \<longleftrightarrow> (\<forall>i<length g. l2_norm (g ! i) = 1)"
    by auto
  from pos nonneg have "0 \<le> (\<Sum>i<length g. (1 - l2_norm (g ! i))\<^sup>2) / real (length g)"
    by (intro divide_nonneg_pos)
  moreover from pos have "(\<Sum>i<length g. (1 - l2_norm (g ! i))\<^sup>2) / real (length g) = 0
      \<longleftrightarrow> (\<Sum>i<length g. (1 - l2_norm (g ! i))\<^sup>2) = 0"
    by simp
  ultimately show "gradient_penalty_loss K_gradients y_true y_pred x
       = (\<Sum>i<length g. (1 - l2_norm (g ! i))\<^sup>2) / real (length g)
     \<and> 0 \<le> gradient_penalty_loss K_gradients y_true y_pred x
     \<and> (gradient_penalty_loss K_gradients y_true y_pred x = 0
          \<longleftrightarrow> (\<forall>i<length g. l2_norm (g ! i) = 1))"
    using eq zero by simp
qed

theorem gradient_penalty_is_mean_squared_deviation_witness:
  "(\<lambda>y x. [[[[3, 4]]], [[[1, 0]]]]) [[0], [0]] [[[[0, 0]]], [[[0, 0]]]]
      = [[[[3, 4]]], [[[1, 0 :: real]]]]
   \<and> [[[[3, 4]]], [[[1, 0 :: real]]]] \<noteq> []
   \<and> gradient_penalty_loss (\<lambda>y x. [[[[3, 4]]], [[[1, 0]]]]) [[0], [0]] [[0], [0]]
        [[[[0, 0]]], [[[0, 0]]]] = 8
   \<and> gradient_penalty_loss (\<lambda>y x. [[[[3, 4]]], [[[1, 0]]]]) [[0], [0]] [[0], [0]]
        [[[[0, 0]]], [[[0, 0]]]] \<noteq> 0"
proof -
  have five: "sqrt 25 = 5"
    using real_sqrt_abs [of 5] by simp
  have n0: "l2_norm [[[3, 4]]] = 5"
    by (simp add: l2_norm_def numeral_2_eq_2 five)
  have n1: "l2_norm [[[1, 0]]] = 1"
    by (simp add: l2_norm_def numeral_2_eq_2)
  have hyp: "(\<lambda>y x. [[[[3, 4]]], [[[1, 0]]]]) [[0], [0]] [[[[0, 0]]], [[[0, 0]]]]
      = [[[[3, 4]]], [[[1, 0 :: real]]]] \<and> [[[[3, 4]]], [[[1, 0 :: real]]]] \<noteq> []"
    by simp
  from gradient_penalty_is_mean_squared_deviation
    [where K_gradients = "\<lambda>y x. [[[[3, 4]]], [[[1, 0]]]]" and y_pred = "[[0], [0]]"
       and x = "[[[[0, 0]]], [[[0, 0]]]]" and g = "[[[[3, 4]]], [[[1, 0]]]]"
       and y_true = "[[0], [0]]", rule_format, OF hyp]
  have "gradient_penalty_loss (\<lambda>y x. [[[[3, 4]]], [[[1, 0]]]]) [[0], [0]] [[0], [0]]
        [[[[0, 0]]], [[[0, 0]]]] = 8"
    by (simp add: numeral_2_eq_2 n0 n1)
  then show ?thesis by simp
qed

subsection \<open>The random interpolation layer\<close>






subsection \<open>The training loop of the GAN\<close>




lemma optimization_steps_append [simp]:
  "optimization_steps (xs @ ys) = optimization_steps xs @ optimization_steps ys"
  by (simp add: optimization_steps_def)

lemma optimization_steps_replicate [simp]:
  "optimization_steps (replicate k TrainCritic) = replicate k TrainCritic"
  by (simp add: optimization_steps_def)










end
